theory Spec2Isabelle
  imports Complex_Main
begin

section \<open>Numbers and sample values\<close>

text \<open>
  The program computes with JavaScript numbers. Finite numbers are modelled as reals, so
  arithmetic is exact: rounding and overflow of IEEE doubles are not part of the model.
  The non-finite numbers and the nullish values (\<open>null\<close>, \<open>undefined\<close>) are kept as
  separate constructors wherever the code tests for them (\<open>Number.isFinite\<close>, \<open>??\<close>).
\<close>

datatype jsval = Num real | NaN | PosInfinity | NegInfinity | Nullish

text \<open>\<open>Number.isFinite(x)\<close>\<close>

fun isFinite :: "jsval \<Rightarrow> bool" where
  "isFinite (Num v) = True"
| "isFinite x = False"

text \<open>\<open>x ?? 0\<close>\<close>

fun orZero :: "jsval \<Rightarrow> jsval" where
  "orZero Nullish = Num 0"
| "orZero x = x"

section \<open>Averaging classes (sketch.js section 2, eb-init.js)\<close>

record OnlineMean =
  om_mean :: real
  om_n :: nat

definition OnlineMean_new :: OnlineMean where
  "OnlineMean_new = \<lparr>om_mean = 0, om_n = 0\<rparr>"

text \<open>
  \<^verbatim>\<open>add(x) { if (!Number.isFinite(x)) return; this.n++; this.mean += (x - this.mean) / this.n; }\<close>
\<close>

fun OnlineMean_add :: "OnlineMean \<Rightarrow> jsval \<Rightarrow> OnlineMean" where
  "OnlineMean_add m (Num x) =
     (let k = om_n m + 1
      in \<lparr>om_mean = om_mean m + (x - om_mean m) / real k, om_n = k\<rparr>)"
| "OnlineMean_add m x = m"

record OnlineMeanArray =
  oma_means :: "real list"
  oma_n :: nat

definition OnlineMeanArray_new :: "nat \<Rightarrow> OnlineMeanArray" where
  "OnlineMeanArray_new len = \<lparr>oma_means = replicate len 0, oma_n = 0\<rparr>"

text \<open>
  The body of the \<open>for\<close> loop of \<open>OnlineMeanArray.add\<close>, from index \<open>i\<close> on: \<open>xs\<close> are
  the elements \<open>arr[i], arr[i+1], ...\<close> still to visit and \<open>k\<close> is \<open>this.n\<close>.
  The loop only runs with \<open>means.length = arr.length\<close>, so every index is in range.
\<close>

fun oma_loop :: "nat \<Rightarrow> nat \<Rightarrow> jsval list \<Rightarrow> real list \<Rightarrow> real list" where
  "oma_loop k i [] ms = ms"
| "oma_loop k i (x # xs) ms =
     oma_loop k (Suc i) xs
       (case x of Num v \<Rightarrow> ms[i := ms ! i + (v - ms ! i) / real k] | _ \<Rightarrow> ms)"

text \<open>
  \<^verbatim>\<open>add(arr) { if (!arr || !arr.length) return;
    if (this.means.length !== arr.length) this.means = new Array(arr.length).fill(0);
    this.n++; for (...) ... }\<close>
  The nullish case of \<open>arr\<close> is decided by the caller's type (\<open>jsval list option\<close>).
\<close>

definition OnlineMeanArray_add :: "OnlineMeanArray \<Rightarrow> jsval list \<Rightarrow> OnlineMeanArray" where
  "OnlineMeanArray_add a arr =
     (if arr = [] then a
      else
        let ms = (if length (oma_means a) \<noteq> length arr
                  then replicate (length arr) 0 else oma_means a);
            k = oma_n a + 1
        in \<lparr>oma_means = oma_loop k 0 arr ms, oma_n = k\<rparr>)"

datatype emotion = anxiety | sadness | joy | anger | fear | calm

text \<open>The order of the keys of \<open>this.emotions\<close>, which \<open>for (const k in ...)\<close> follows.\<close>

definition emotionNames :: "emotion list" where
  "emotionNames = [anxiety, sadness, joy, anger, fear, calm]"

text \<open>
  A sample as \<open>SessionAverager.add\<close> reads it. A missing scalar is \<open>Nullish\<close>; a missing
  (falsy) \<open>emotions\<close> object or vector is \<open>None\<close>; a key missing from \<open>emotions\<close> is
  \<open>Nullish\<close>.
\<close>

record sample =
  s_structure :: jsval
  s_balance :: jsval
  s_posture :: jsval
  s_velocity :: jsval
  s_emotions :: "(emotion \<Rightarrow> jsval) option"
  s_regionWidths :: "jsval list option"
  s_segmentProfile :: "jsval list option"

record SessionAverager =
  active :: bool
  startTs :: real
  lastTs :: real
  samples :: nat
  structure' :: OnlineMean
  balance :: OnlineMean
  posture :: OnlineMean
  velocity :: OnlineMean
  emotions :: "emotion \<Rightarrow> OnlineMean"
  regionWidths :: OnlineMeanArray
  segmentProfile :: OnlineMeanArray

text \<open>\<open>reset()\<close>: the state the constructor and \<open>begin()\<close> start from.\<close>

definition SessionAverager_reset :: SessionAverager where
  "SessionAverager_reset =
     \<lparr>active = False, startTs = 0, lastTs = 0, samples = 0,
      structure' = OnlineMean_new, balance = OnlineMean_new,
      posture = OnlineMean_new, velocity = OnlineMean_new,
      emotions = (\<lambda>k. OnlineMean_new),
      regionWidths = OnlineMeanArray_new 6,
      segmentProfile = OnlineMeanArray_new 3\<rparr>"

text \<open>\<open>begin()\<close>; \<open>now\<close> is the value of \<open>performance.now()\<close>. The prior state is dropped.\<close>

definition SessionAverager_begin :: "real \<Rightarrow> SessionAverager \<Rightarrow> SessionAverager" where
  "SessionAverager_begin now s =
     SessionAverager_reset\<lparr>active := True, startTs := now, lastTs := now\<rparr>"

text \<open>The loop \<open>for (const k in this.emotions) this.emotions[k].add(sample.emotions[k] ?? 0)\<close>.\<close>

fun add_emotions ::
  "emotion list \<Rightarrow> (emotion \<Rightarrow> jsval) \<Rightarrow> (emotion \<Rightarrow> OnlineMean) \<Rightarrow> (emotion \<Rightarrow> OnlineMean)" where
  "add_emotions [] e ms = ms"
| "add_emotions (k # ks) e ms = add_emotions ks e (ms(k := OnlineMean_add (ms k) (orZero (e k))))"

definition SessionAverager_add :: "real \<Rightarrow> sample \<Rightarrow> SessionAverager \<Rightarrow> SessionAverager" where
  "SessionAverager_add now x s =
     (if \<not> active s then s
      else
        let s1 = s\<lparr>lastTs := now\<rparr>;
            s2 = s1\<lparr>structure' := OnlineMean_add (structure' s1) (orZero (s_structure x))\<rparr>;
            s3 = s2\<lparr>balance := OnlineMean_add (balance s2) (orZero (s_balance x))\<rparr>;
            s4 = s3\<lparr>posture := OnlineMean_add (posture s3) (orZero (s_posture x))\<rparr>;
            s5 = s4\<lparr>velocity := OnlineMean_add (velocity s4) (orZero (s_velocity x))\<rparr>;
            s6 = (case s_emotions x of
                    None \<Rightarrow> s5
                  | Some e \<Rightarrow> s5\<lparr>emotions := add_emotions emotionNames e (emotions s5)\<rparr>);
            s7 = (case s_regionWidths x of
                    None \<Rightarrow> s6
                  | Some arr \<Rightarrow> s6\<lparr>regionWidths := OnlineMeanArray_add (regionWidths s6) arr\<rparr>);
            s8 = (case s_segmentProfile x of
                    None \<Rightarrow> s7
                  | Some arr \<Rightarrow> s7\<lparr>segmentProfile := OnlineMeanArray_add (segmentProfile s7) arr\<rparr>)
        in s8\<lparr>samples := samples s8 + 1\<rparr>)"

text \<open>The snapshot object \<open>end()\<close> returns.\<close>

record snapshot =
  durationMs :: real
  out_samples :: nat
  out_structure :: real
  out_balance :: real
  out_posture :: real
  out_velocity :: real
  out_emotions :: "emotion \<Rightarrow> real"
  out_regionWidths :: "real list"
  out_segmentProfile :: "real list"

definition SessionAverager_end :: "real \<Rightarrow> SessionAverager \<Rightarrow> snapshot \<times> SessionAverager" where
  "SessionAverager_end now s =
     (\<lparr>durationMs = now - startTs s,
       out_samples = samples s,
       out_structure = om_mean (structure' s),
       out_balance = om_mean (balance s),
       out_posture = om_mean (posture s),
       out_velocity = om_mean (velocity s),
       out_emotions = (\<lambda>k. om_mean (emotions s k)),
       out_regionWidths = oma_means (regionWidths s),
       out_segmentProfile = oma_means (segmentProfile s)\<rparr>,
      s\<lparr>active := False\<rparr>)"

text \<open>A session: \<open>begin()\<close> at time \<open>t0\<close>, then one \<open>add\<close> per element of \<open>xs\<close> (time, sample).\<close>

definition run_session :: "real \<Rightarrow> SessionAverager \<Rightarrow> (real \<times> sample) list \<Rightarrow> SessionAverager" where
  "run_session t0 s0 xs = foldl (\<lambda>s (t, x). SessionAverager_add t x s) (SessionAverager_begin t0 s0) xs"

section \<open>Library functions the sketch calls\<close>

text \<open>
  \<open>lerp\<close>, \<open>map\<close>, \<open>constrain\<close> and \<open>dist\<close> belong to p5.js and \<open>Math.hypot\<close>,
  \<open>Math.atan2\<close> to the language; they are not code of this repository and are written
  here as their documentation defines them, over the reals.
\<close>

definition lerp :: "real \<Rightarrow> real \<Rightarrow> real \<Rightarrow> real" where
  "lerp start stop amt = amt * (stop - start) + start"

definition map_p5 :: "real \<Rightarrow> real \<Rightarrow> real \<Rightarrow> real \<Rightarrow> real \<Rightarrow> real" where
  "map_p5 v start1 stop1 start2 stop2 =
     (v - start1) / (stop1 - start1) * (stop2 - start2) + start2"

definition constrain :: "real \<Rightarrow> real \<Rightarrow> real \<Rightarrow> real" where
  "constrain v low high = max (min v high) low"

definition hypot :: "real \<Rightarrow> real \<Rightarrow> real" where
  "hypot a b = sqrt (a * a + b * b)"

definition dist_p5 :: "real \<Rightarrow> real \<Rightarrow> real \<Rightarrow> real \<Rightarrow> real" where
  "dist_p5 x1 y1 x2 y2 = hypot (x2 - x1) (y2 - y1)"

definition atan2 :: "real \<Rightarrow> real \<Rightarrow> real" where
  "atan2 b a =
     (if 0 < a then arctan (b / a)
      else if a < 0 then (if 0 \<le> b then arctan (b / a) + pi else arctan (b / a) - pi)
      else if 0 < b then pi / 2
      else if b < 0 then - (pi / 2)
      else 0)"

text \<open>\<^verbatim>\<open>function clamp01(x) { return Math.max(0, Math.min(1, x)); }\<close>\<close>

definition clamp01 :: "real \<Rightarrow> real" where
  "clamp01 v = max 0 (min 1 v)"

section \<open>Tuning constants (sketch.js section 0, \<open>TUNE\<close>)\<close>

named_theorems tune \<open>the values of the tuning constants\<close>

definition kpMinScore :: real where [tune]: "kpMinScore = 0.5"
definition vNormInMin :: real where [tune]: "vNormInMin = 0.015"
definition vNormInMax :: real where [tune]: "vNormInMax = 0.2"
definition vBlend :: real where [tune]: "vBlend = 0.125"
definition fastEMA :: real where [tune]: "fastEMA = 0.8"
definition slowEMA :: real where [tune]: "slowEMA = 0.01"
definition angerBurstMin :: real where [tune]: "angerBurstMin = 0.02"
definition angerBurstMax :: real where [tune]: "angerBurstMax = 1"
definition blendPoseVsSlider :: real where [tune]: "blendPoseVsSlider = 0.30"

text \<open>The four numbers \<open>{inMin, inMax, outMin, outMax}\<close> of an emotion mapping.\<close>

record range =
  inMin :: real
  inMax :: real
  outMin :: real
  outMax :: real

definition anxietyFromVel :: range where [tune]:
  "anxietyFromVel = \<lparr>inMin = 0.3, inMax = 1.5, outMin = 0, outMax = 5\<rparr>"
definition calmFromBalance :: range where [tune]:
  "calmFromBalance = \<lparr>inMin = 0.2, inMax = 50, outMin = 5, outMax = 0\<rparr>"
definition fearFromLean :: range where [tune]:
  "fearFromLean = \<lparr>inMin = 0, inMax = 100, outMin = 0, outMax = 5\<rparr>"
definition joyFromStructure :: range where [tune]:
  "joyFromStructure = \<lparr>inMin = 0.25, inMax = 1.0, outMin = 0, outMax = 5\<rparr>"

text \<open>
  \<open>sadnessFromAvgY\<close> is \<open>{inMin: 0, inMax: null, outMin: 0, outMax: 5}\<close>; its \<open>inMax\<close>
  is written once by \<open>updatePoseFactors\<close> and so is part of the state (\<open>sadnessInMax\<close>).
\<close>

definition armsHands_wristSpreadMin :: real where [tune]: "armsHands_wristSpreadMin = 2"
definition armsHands_wristSpreadMax :: real where [tune]: "armsHands_wristSpreadMax = 5.0"
definition armsHands_lerp :: real where [tune]: "armsHands_lerp = 0.12"
definition spine_swayRange :: real where [tune]: "spine_swayRange = 1.0"
definition spine_lerp :: real where [tune]: "spine_lerp = 0.20"
definition head_velMin :: real where [tune]: "head_velMin = 0.035"
definition head_velMax :: real where [tune]: "head_velMax = 0.05"
definition head_lerp :: real where [tune]: "head_lerp = 0.10"
definition neck_velMin :: real where [tune]: "neck_velMin = 0.0005"
definition neck_velMax :: real where [tune]: "neck_velMax = 0.015"
definition neck_lerp :: real where [tune]: "neck_lerp = 0.18"
definition chest_velMin :: real where [tune]: "chest_velMin = 0.00005"
definition chest_velMax :: real where [tune]: "chest_velMax = 0.010"
definition chest_reachMin :: real where [tune]: "chest_reachMin = 0.7"
definition chest_reachMax :: real where [tune]: "chest_reachMax = 2.0"
definition chest_lerp :: real where [tune]: "chest_lerp = 0.20"
definition abdomen_velMin :: real where [tune]: "abdomen_velMin = 0.025"
definition abdomen_velMax :: real where [tune]: "abdomen_velMax = 0.0325"
definition abdomen_torsoMin :: real where [tune]: "abdomen_torsoMin = 1.20"
definition abdomen_torsoMax :: real where [tune]: "abdomen_torsoMax = 1.40"
definition abdomen_lerp :: real where [tune]: "abdomen_lerp = 0.10"
definition legsFeet_velMin :: real where [tune]: "legsFeet_velMin = 0.0001"
definition legsFeet_velMax :: real where [tune]: "legsFeet_velMax = 0.012"
definition legsFeet_ankleSpreadMin :: real where [tune]: "legsFeet_ankleSpreadMin = 0.9"
definition legsFeet_ankleSpreadMax :: real where [tune]: "legsFeet_ankleSpreadMax = 3.0"
definition legsFeet_lerp :: real where [tune]: "legsFeet_lerp = 0.20"

text \<open>\<open>RESET_INPUT_BLOCK_MS\<close> and the \<open>BLEND\<close> of \<open>applySliders\<close>.\<close>

definition RESET_INPUT_BLOCK_MS :: real where [tune]: "RESET_INPUT_BLOCK_MS = 600"
definition BLEND :: real where [tune]: "BLEND = 0.35"

section \<open>Runtime state (sketch.js section 1)\<close>

text \<open>A position \<open>{x, y}\<close>, and a keypoint \<open>{part, position, score}\<close> of the detector.\<close>

record point =
  px :: real
  py :: real

record keypoint =
  part :: string
  position :: point
  score :: real

text \<open>
  The pose object of the detector: the keypoint list, and the named parts that
  \<open>updatePoseFactors\<close> reads (\<open>pose.leftShoulder\<close> and so on). The detector always
  supplies its named parts, so they are positions here, and the tests
  \<open>Ls && Rs && Lw && Rw\<close> of the source are always true.
\<close>

record pose =
  keypoints :: "keypoint list"
  leftShoulder :: point
  rightShoulder :: point
  leftWrist :: point
  rightWrist :: point
  leftHip :: point
  rightHip :: point

datatype region = head | neck | armsHands | chest | abdomen | legsFeet | spine

definition regionNames :: "region list" where
  "regionNames = [head, neck, armsHands, chest, abdomen, legsFeet]"

text \<open>The table \<open>regionKeypoints\<close>; it has no entry for the spine.\<close>

fun regionKeypoints :: "region \<Rightarrow> string list" where
  "regionKeypoints head = [''nose'', ''leftEye'', ''rightEye'', ''leftEar'', ''rightEar'']"
| "regionKeypoints neck = [''leftShoulder'', ''rightShoulder'']"
| "regionKeypoints chest =
     [''leftShoulder'', ''rightShoulder'', ''leftElbow'', ''rightElbow'', ''leftWrist'', ''rightWrist'']"
| "regionKeypoints armsHands = [''leftWrist'', ''rightWrist'', ''leftElbow'', ''rightElbow'']"
| "regionKeypoints abdomen = [''leftHip'', ''rightHip'']"
| "regionKeypoints legsFeet = [''leftKnee'', ''rightKnee'', ''leftAnkle'', ''rightAnkle'']"
| "regionKeypoints spine = []"

text \<open>
  What a detection tick reads from outside the pipeline: the capture element (\<open>video\<close>,
  possibly undefined), the canvas \<open>height\<close> of p5 and \<open>regionMaxWidths.spine\<close>, which
  \<open>draw()\<close> rewrites every frame.
\<close>

record video =
  width :: real
  height :: real

record env =
  video :: "video option"
  canvasHeight :: real
  spineMaxWidth :: real

text \<open>
  The module-level variables the estimation pipeline owns. The slider objects are
  getter/setter closures over one number each; the store is the map from names to these
  numbers. The pose-follow transform, the graphics buffers and the tracking flag are
  not part of the model.
\<close>

record pipeline =
  prevKeypoints :: "(string \<times> point) list option"
  prevByPart :: "string \<rightharpoonup> point"
  movementVelocity :: real
  smoothedStructure :: real
  smoothedBalance :: real
  smoothedPostureLean :: real
  smoothedAvgY :: real
  fastVel :: real
  slowVel :: real
  sadnessInMax :: "real option"
  emotionSliders :: "emotion \<Rightarrow> real"
  regionSliders :: "region \<Rightarrow> real"
  blockIncomingUntil :: real

section \<open>Pose to emotion factors (sketch.js section 6)\<close>

text \<open>\<open>k.score > TUNE.velocity.kpMinScore\<close>\<close>

definition visible :: "keypoint \<Rightarrow> bool" where
  "visible k \<longleftrightarrow> score k > kpMinScore"

text \<open>\<open>video?.width || 640\<close> and \<open>video?.height || 480\<close>\<close>

definition videoWidth :: "env \<Rightarrow> real" where
  "videoWidth e = (case video e of None \<Rightarrow> 640 | Some v \<Rightarrow> if width v = 0 then 640 else width v)"

definition videoHeight :: "env \<Rightarrow> real" where
  "videoHeight e = (case video e of None \<Rightarrow> 480 | Some v \<Rightarrow> if height v = 0 then 480 else height v)"

text \<open>\<open>Math.hypot(video?.width || 640, video?.height || 480) || 1\<close>\<close>

definition diag :: "env \<Rightarrow> real" where
  "diag e = (let d = hypot (videoWidth e) (videoHeight e) in if d = 0 then 1 else d)"

text \<open>
  The loop \<open>for (const k of kp)\<close> of the velocity estimate, with its accumulators
  \<open>sum\<close> (here \<open>sm\<close>) and \<open>n\<close>; \<open>prev\<close> is \<open>__prevKeypoints\<close>.
\<close>

fun vel_loop :: "real \<Rightarrow> (string \<times> point) list \<Rightarrow> keypoint list \<Rightarrow> real \<times> nat \<Rightarrow> real \<times> nat" where
  "vel_loop d prev [] (sm, n) = (sm, n)"
| "vel_loop d prev (k # ks) (sm, n) =
     (case find (\<lambda>p. fst p = part k) prev of
        None \<Rightarrow> vel_loop d prev ks (sm, n)
      | Some p \<Rightarrow>
          let dx = (px (position k) - px (snd p)) / d;
              dy = (py (position k) - py (snd p)) / d
          in vel_loop d prev ks (sm + hypot dx dy, n + 1))"

text \<open>
  \<open>velAvg\<close> as \<open>updatePoseFactors\<close> computes it from the filtered keypoints \<open>kp\<close>:
  0 unless \<open>__prevKeypoints\<close> is set and some part matched.
\<close>

definition velAvg :: "env \<Rightarrow> (string \<times> point) list option \<Rightarrow> keypoint list \<Rightarrow> real" where
  "velAvg e prev kp =
     (case prev of
        None \<Rightarrow> 0
      | Some ps \<Rightarrow>
          (case vel_loop (diag e) ps kp (0, 0) of
             (sm, n) \<Rightarrow> if n > 0 then sm / real n else 0))"

definition updatePoseFactors :: "env \<Rightarrow> pose \<Rightarrow> pipeline \<Rightarrow> pipeline" where
  "updatePoseFactors e pose s =
     (let kp = filter visible (keypoints pose) in
      if kp = [] then s
      else
        let v = velAvg e (prevKeypoints s) kp;
            vNorm = clamp01 (map_p5 v vNormInMin vNormInMax 0 1);
            mv = lerp (movementVelocity s) vNorm vBlend;
            fv = lerp (fastVel s) vNorm fastEMA;
            sv = lerp (slowVel s) vNorm slowEMA;
            burst = max 0 (fv - sv);
            poseAnger = clamp01 (map_p5 burst angerBurstMin angerBurstMax 0 1) * 5;
            Ls = leftShoulder pose; Rs = rightShoulder pose;
            Lw = leftWrist pose; Rw = rightWrist pose;
            span = dist_p5 (px Ls) (py Ls) (px Rs) (py Rs);
            lw = dist_p5 (px Ls) (py Ls) (px Lw) (py Lw) / span;
            rw = dist_p5 (px Rs) (py Rs) (px Rw) (py Rw) / span;
            struct = clamp01 (map_p5 ((lw + rw) * 0.5) 0.7 2.0 0 1);
            sStructure = lerp (smoothedStructure s) struct 0.15;
            shoulderDiff = \<bar>py Ls - py Rs\<bar>;
            hipDiff = \<bar>py (leftHip pose) - py (rightHip pose)\<bar>;
            sBalance = lerp (smoothedBalance s) (shoulderDiff + hipDiff) 0.15;
            sx = (px Ls + px Rs) / 2;
            sy = (py Ls + py Rs) / 2;
            hx = (px (leftHip pose) + px (rightHip pose)) / 2;
            hy = (py (leftHip pose) + py (rightHip pose)) / 2;
            ang = atan2 (hy - sy) (hx - sx);
            lean = clamp01 (map_p5 \<bar>ang\<bar> 0.0 (pi / 6) 0 1);
            sLean = lerp (smoothedPostureLean s) lean 0.15;
            avgY = (py (leftShoulder pose) + py (rightShoulder pose)) / 2;
            sAvgY = lerp (smoothedAvgY s) avgY 0.1;
            sadMax = (case sadnessInMax s of None \<Rightarrow> canvasHeight e | Some m \<Rightarrow> m);
            poseAnxiety = constrain (map_p5 mv (inMin anxietyFromVel) (inMax anxietyFromVel)
                            (outMin anxietyFromVel) (outMax anxietyFromVel)) 0 5;
            poseCalm = constrain (map_p5 sBalance (inMin calmFromBalance) (inMax calmFromBalance)
                            (outMin calmFromBalance) (outMax calmFromBalance)) 0 5;
            poseSadness = constrain (map_p5 sAvgY 0 sadMax 0 5) 0 5;
            poseFear = constrain (map_p5 sLean (inMin fearFromLean) (inMax fearFromLean)
                            (outMin fearFromLean) (outMax fearFromLean)) 0 5;
            poseJoy = constrain (map_p5 sStructure (inMin joyFromStructure) (inMax joyFromStructure)
                            (outMin joyFromStructure) (outMax joyFromStructure)) 0 5;
            blend = (\<lambda>p cur. lerp cur p blendPoseVsSlider);
            E = emotionSliders s
        in s\<lparr>prevKeypoints := Some (map (\<lambda>k. (part k, position k)) kp),
             movementVelocity := mv, fastVel := fv, slowVel := sv,
             smoothedStructure := sStructure, smoothedBalance := sBalance,
             smoothedPostureLean := sLean, smoothedAvgY := sAvgY,
             sadnessInMax := Some sadMax,
             emotionSliders := E(anxiety := blend poseAnxiety (E anxiety),
                                 calm := blend poseCalm (E calm),
                                 sadness := blend poseSadness (E sadness),
                                 fear := blend poseFear (E fear),
                                 joy := blend poseJoy (E joy),
                                 anger := blend poseAnger (E anger))\<rparr>)"

section \<open>Region coupling (sketch.js section 7)\<close>

text \<open>
  \<open>pose.keypoints.find(p => p.part === name && p.score > TUNE.velocity.kpMinScore)\<close>,
  and the \<open>get\<close> of \<open>coupleRegionsToPose\<close>, which returns its position or null.
\<close>

definition findPart :: "pose \<Rightarrow> string \<Rightarrow> keypoint option" where
  "findPart pose name = find (\<lambda>p. part p = name \<and> visible p) (keypoints pose)"

definition get :: "pose \<Rightarrow> string \<Rightarrow> point option" where
  "get pose name = map_option position (findPart pose name)"

text \<open>
  The loop of \<open>regionVelocity\<close> over the part names, with \<open>sum\<close> (here \<open>sm\<close>), \<open>n\<close> and the
  per-part cache \<open>__prevByPart\<close>.
\<close>

fun rv_loop ::
  "real \<Rightarrow> pose \<Rightarrow> string list \<Rightarrow> real \<times> nat \<times> (string \<rightharpoonup> point) \<Rightarrow> real \<times> nat \<times> (string \<rightharpoonup> point)" where
  "rv_loop d pose [] (sm, n, c) = (sm, n, c)"
| "rv_loop d pose (name # names) (sm, n, c) =
     (case findPart pose name of
        None \<Rightarrow> rv_loop d pose names (sm, n, c)
      | Some k \<Rightarrow>
          (case c name of
             None \<Rightarrow> rv_loop d pose names (sm, n, c(name \<mapsto> position k))
           | Some prev \<Rightarrow>
               let dx = (px (position k) - px prev) / d;
                   dy = (py (position k) - py prev) / d
               in rv_loop d pose names (sm + hypot dx dy, n + 1, c(name \<mapsto> position k))))"

definition regionVelocity ::
  "env \<Rightarrow> pose \<Rightarrow> string list \<Rightarrow> (string \<rightharpoonup> point) \<Rightarrow> real \<times> (string \<rightharpoonup> point)" where
  "regionVelocity e pose parts c =
     (case rv_loop (diag e) pose parts (0, 0, c) of
        (sm, n, c') \<Rightarrow> (if n > 0 then sm / real n else 0, c'))"

text \<open>Writing a region slider: \<open>regionSliders[r].value(v)\<close>.\<close>

definition setRegion :: "region \<Rightarrow> real \<Rightarrow> pipeline \<Rightarrow> pipeline" where
  "setRegion r v s = s\<lparr>regionSliders := (regionSliders s)(r := v)\<rparr>"

text \<open>
  The blocks of \<open>coupleRegionsToPose\<close>, in the order of the source. Each returns the
  region velocity \<open>v\<close> it computed (\<open>None\<close> when its guard skips the block) beside the
  new state, so that statements about \<open>v\<close> can be made.
\<close>

definition headBlock :: "env \<Rightarrow> pose \<Rightarrow> pipeline \<Rightarrow> real option \<times> pipeline" where
  "headBlock e pose s =
     (case regionVelocity e pose (regionKeypoints head) (prevByPart s) of
        (v, c) \<Rightarrow>
          let val = constrain (map_p5 v head_velMin head_velMax 0 5) 0 5
          in (Some v, setRegion head (lerp (regionSliders s head) val head_lerp) (s\<lparr>prevByPart := c\<rparr>)))"

definition neckBlock :: "env \<Rightarrow> pose \<Rightarrow> pipeline \<Rightarrow> real option \<times> pipeline" where
  "neckBlock e pose s =
     (case regionVelocity e pose (regionKeypoints neck) (prevByPart s) of
        (v, c) \<Rightarrow>
          let val = constrain (map_p5 v neck_velMin neck_velMax 0 5) 0 5
          in (Some v, setRegion neck (lerp (regionSliders s neck) val neck_lerp) (s\<lparr>prevByPart := c\<rparr>)))"

definition armsHandsBlock :: "env \<Rightarrow> pose \<Rightarrow> pipeline \<Rightarrow> real option \<times> pipeline" where
  "armsHandsBlock e pose s =
     (case (get pose ''leftWrist'', get pose ''rightWrist'',
            get pose ''leftShoulder'', get pose ''rightShoulder'') of
        (Some lw, Some rw, Some ls, Some rs) \<Rightarrow>
          let span = dist_p5 (px ls) (py ls) (px rs) (py rs);
              wristSpread = dist_p5 (px lw) (py lw) (px rw) (py rw) / max span 0.000001;
              base = constrain (map_p5 wristSpread armsHands_wristSpreadMin armsHands_wristSpreadMax 0 5) 0 5
          in (case regionVelocity e pose (regionKeypoints armsHands) (prevByPart s) of
                (v, c) \<Rightarrow>
                  let boost = constrain (map_p5 v head_velMin chest_velMax 0 5) 0 5 * 0.5;
                      armsVal = constrain (base + boost) 0 5
                  in (Some v, setRegion armsHands
                        (lerp (regionSliders s armsHands) armsVal armsHands_lerp) (s\<lparr>prevByPart := c\<rparr>)))
      | _ \<Rightarrow> (None, s))"

definition chestBlock :: "env \<Rightarrow> pose \<Rightarrow> pipeline \<Rightarrow> real option \<times> pipeline" where
  "chestBlock e pose s =
     (case (get pose ''leftShoulder'', get pose ''rightShoulder'') of
        (Some ls, Some rs) \<Rightarrow>
          let span = dist_p5 (px ls) (py ls) (px rs) (py rs);
              openness =
                (case (get pose ''leftWrist'', get pose ''rightWrist'') of
                   (Some lw, Some rw) \<Rightarrow>
                     let lwR = dist_p5 (px ls) (py ls) (px lw) (py lw) / span;
                         rwR = dist_p5 (px rs) (py rs) (px rw) (py rw) / span
                     in (lwR + rwR) * 0.5
                 | _ \<Rightarrow> 0);
              openVal = constrain (map_p5 openness chest_reachMin chest_reachMax 0 5) 0 5
          in (case regionVelocity e pose (regionKeypoints chest) (prevByPart s) of
                (v, c) \<Rightarrow>
                  let vVal = constrain (map_p5 v chest_velMin chest_velMax 0 5) 0 5;
                      chestVal = constrain (0.6 * openVal + 0.4 * vVal) 0 5
                  in (Some v, setRegion chest
                        (lerp (regionSliders s chest) chestVal chest_lerp) (s\<lparr>prevByPart := c\<rparr>)))
      | _ \<Rightarrow> (None, s))"

definition abdomenBlock :: "env \<Rightarrow> pose \<Rightarrow> pipeline \<Rightarrow> real option \<times> pipeline" where
  "abdomenBlock e pose s =
     (case (get pose ''leftShoulder'', get pose ''rightShoulder'',
            get pose ''leftHip'', get pose ''rightHip'') of
        (Some ls, Some rs, Some lh, Some rh) \<Rightarrow>
          let span = dist_p5 (px ls) (py ls) (px rs) (py rs);
              scx = (px ls + px rs) / 2;
              scy = (py ls + py rs) / 2;
              hcx = (px lh + px rh) / 2;
              hcy = (py lh + py rh) / 2;
              torsoLen = dist_p5 scx scy hcx hcy / max span 0.000001;
              torsoVal = 5 - constrain (map_p5 torsoLen abdomen_torsoMin abdomen_torsoMax 0 5) 0 5
          in (case regionVelocity e pose (regionKeypoints abdomen) (prevByPart s) of
                (v, c) \<Rightarrow>
                  let vVal = constrain (map_p5 v abdomen_velMin abdomen_velMax 0 5) 0 5;
                      abdVal = constrain (0.6 * torsoVal + 0.4 * vVal) 0 5
                  in (Some v, setRegion abdomen
                        (lerp (regionSliders s abdomen) abdVal abdomen_lerp) (s\<lparr>prevByPart := c\<rparr>)))
      | _ \<Rightarrow> (None, s))"

definition legsFeetBlock :: "env \<Rightarrow> pose \<Rightarrow> pipeline \<Rightarrow> real option \<times> pipeline" where
  "legsFeetBlock e pose s =
     (case (get pose ''leftAnkle'', get pose ''rightAnkle'',
            get pose ''leftHip'', get pose ''rightHip'') of
        (Some la, Some ra, Some lh, Some rh) \<Rightarrow>
          let hipSpan = dist_p5 (px lh) (py lh) (px rh) (py rh);
              stepW = dist_p5 (px la) (py la) (px ra) (py ra) / max hipSpan 0.000001;
              spreadVal = constrain
                (map_p5 stepW legsFeet_ankleSpreadMin legsFeet_ankleSpreadMax 0 5) 0 5
          in (case regionVelocity e pose (regionKeypoints legsFeet) (prevByPart s) of
                (v, c) \<Rightarrow>
                  let vVal = constrain (map_p5 v legsFeet_velMin legsFeet_velMax 0 5) 0 5;
                      legsVal = constrain (0.5 * spreadVal + 0.5 * vVal) 0 5
                  in (Some v, setRegion legsFeet
                        (lerp (regionSliders s legsFeet) legsVal legsFeet_lerp) (s\<lparr>prevByPart := c\<rparr>)))
      | _ \<Rightarrow> (None, s))"

text \<open>The spine block calls no \<open>regionVelocity\<close>; \<open>regionMaxWidths.spine || 100\<close>.\<close>

definition spineBlock :: "env \<Rightarrow> pose \<Rightarrow> pipeline \<Rightarrow> pipeline" where
  "spineBlock e pose s =
     (case (get pose ''leftShoulder'', get pose ''rightShoulder'') of
        (Some ls, Some rs) \<Rightarrow>
          let span = dist_p5 (px ls) (py ls) (px rs) (py rs);
              spineSway = ((px ls + px rs) * 0.5 - videoWidth e / 2) / max span 0.000001;
              spineVal = map_p5 spineSway (- spine_swayRange) spine_swayRange 0
                           (if spineMaxWidth e = 0 then 100 else spineMaxWidth e)
          in setRegion spine (lerp (regionSliders s spine) spineVal spine_lerp) s
      | _ \<Rightarrow> s)"

text \<open>
  \<open>coupleRegionsToPose\<close>: the blocks in source order. The first component lists, for
  each region, the velocity its block computed on this tick.
\<close>

definition coupleRegionsToPose :: "env \<Rightarrow> pose \<Rightarrow> pipeline \<Rightarrow> (region \<times> real option) list \<times> pipeline" where
  "coupleRegionsToPose e pose s =
     (case headBlock e pose s of (v1, s1) \<Rightarrow>
      case neckBlock e pose s1 of (v2, s2) \<Rightarrow>
      case armsHandsBlock e pose s2 of (v3, s3) \<Rightarrow>
      case chestBlock e pose s3 of (v4, s4) \<Rightarrow>
      case abdomenBlock e pose s4 of (v5, s5) \<Rightarrow>
      case legsFeetBlock e pose s5 of (v6, s6) \<Rightarrow>
        ([(head, v1), (neck, v2), (armsHands, v3), (chest, v4), (abdomen, v5), (legsFeet, v6)],
         spineBlock e pose s6))"

text \<open>
  One detection tick, as the \<open>'pose'\<close> handler runs it on the primary pose while
  tracking is on: \<open>updatePoseFactors\<close>, then \<open>coupleRegionsToPose\<close> (the calls between
  and after them do not touch the state modelled here).
\<close>

definition detectionTick :: "env \<Rightarrow> pose \<Rightarrow> pipeline \<Rightarrow> pipeline" where
  "detectionTick e pose s = snd (coupleRegionsToPose e pose (updatePoseFactors e pose s))"

section \<open>Control panel integration (sketch.js section 13)\<close>

text \<open>The keys of \<open>emotionSliders\<close> and of \<open>regionSliders\<close> (which has \<open>'spine'\<close> too).\<close>

definition emotionOfName :: "string \<Rightarrow> emotion option" where
  "emotionOfName k =
     (if k = ''anxiety'' then Some anxiety else if k = ''sadness'' then Some sadness
      else if k = ''joy'' then Some joy else if k = ''anger'' then Some anger
      else if k = ''fear'' then Some fear else if k = ''calm'' then Some calm else None)"

definition regionOfName :: "string \<Rightarrow> region option" where
  "regionOfName k =
     (if k = ''head'' then Some head else if k = ''neck'' then Some neck
      else if k = ''armsHands'' then Some armsHands else if k = ''chest'' then Some chest
      else if k = ''abdomen'' then Some abdomen else if k = ''legsFeet'' then Some legsFeet
      else if k = ''spine'' then Some spine else None)"

text \<open>
  The two \<open>for (const k in ...)\<close> loops of \<open>applySliders\<close>. The supplied objects are
  lists of key and value; the values are finite numbers, on which \<open>Number(v) || 0\<close>
  is the identity.
\<close>

fun applyEmotions :: "(string \<times> real) list \<Rightarrow> (emotion \<Rightarrow> real) \<Rightarrow> (emotion \<Rightarrow> real)" where
  "applyEmotions [] E = E"
| "applyEmotions ((k, v) # kvs) E =
     (case emotionOfName k of
        None \<Rightarrow> applyEmotions kvs E
      | Some em \<Rightarrow> applyEmotions kvs (E(em := lerp (E em) v BLEND)))"

fun applyRegions :: "(string \<times> real) list \<Rightarrow> (region \<Rightarrow> real) \<Rightarrow> (region \<Rightarrow> real)" where
  "applyRegions [] R = R"
| "applyRegions ((k, v) # kvs) R =
     (case regionOfName k of
        None \<Rightarrow> applyRegions kvs R
      | Some r \<Rightarrow> applyRegions kvs (R(r := lerp (R r) v BLEND)))"

text \<open>\<open>applySliders(emotion, region, opts)\<close>; \<open>now\<close> is \<open>millis()\<close>, \<open>force\<close> is \<open>opts.force\<close>.\<close>

definition applySliders ::
  "real \<Rightarrow> (string \<times> real) list \<Rightarrow> (string \<times> real) list \<Rightarrow> bool \<Rightarrow> pipeline \<Rightarrow> pipeline" where
  "applySliders now emo reg force s =
     (if \<not> force \<and> now < blockIncomingUntil s then s
      else s\<lparr>emotionSliders := applyEmotions emo (emotionSliders s),
             regionSliders := applyRegions reg (regionSliders s)\<rparr>)"

text \<open>
  \<open>resetAll({echo, resetPoseCaches, stopTrackingNow})\<close>; \<open>now\<close> is \<open>millis()\<close>. Of the
  three options only \<open>resetPoseCaches\<close> acts on the state modelled here.
\<close>

record resetOpts =
  echo :: bool
  resetPoseCaches :: bool
  stopTrackingNow :: bool

definition resetAll :: "real \<Rightarrow> resetOpts \<Rightarrow> pipeline \<Rightarrow> pipeline" where
  "resetAll now opts s =
     (let s1 = s\<lparr>emotionSliders := (\<lambda>k. 0), regionSliders := (\<lambda>r. 0),
                 movementVelocity := 0, fastVel := 0, slowVel := 0,
                 smoothedStructure := 0, smoothedBalance := 0,
                 smoothedPostureLean := 0, smoothedAvgY := 0\<rparr>;
          s2 = (if resetPoseCaches opts
                then s1\<lparr>prevKeypoints := None, prevByPart := Map.empty\<rparr> else s1)
      in s2\<lparr>blockIncomingUntil := now + RESET_INPUT_BLOCK_MS\<rparr>)"

section \<open>Notions the statements about the accumulator use\<close>

text \<open>The finite numbers among a list of values, and the arithmetic mean of a list (0 if empty).\<close>

fun finite_vals :: "jsval list \<Rightarrow> real list" where
  "finite_vals [] = []"
| "finite_vals (Num v # xs) = v # finite_vals xs"
| "finite_vals (x # xs) = finite_vals xs"

definition arith_mean :: "real list \<Rightarrow> real" where
  "arith_mean vs = (if vs = [] then 0 else sum_list vs / real (length vs))"

text \<open>The values present in a list of optional values.\<close>

fun somes :: "'a option list \<Rightarrow> 'a list" where
  "somes [] = []"
| "somes (None # xs) = somes xs"
| "somes (Some x # xs) = x # somes xs"

text \<open>One step of the running mean with counter \<open>k\<close>: the update of a single loop iteration.\<close>

definition upd_mean :: "nat \<Rightarrow> real \<Rightarrow> jsval \<Rightarrow> real" where
  "upd_mean k m x = (case x of Num v \<Rightarrow> m + (v - m) / real k | _ \<Rightarrow> m)"

text \<open>
  The \<open>i\<close>-th elements of a list of vectors; \<open>uniform L ws\<close> says that every vector of
  \<open>ws\<close> has length \<open>L\<close> and only finite elements.
\<close>

definition column :: "nat \<Rightarrow> 'a list list \<Rightarrow> 'a list" where
  "column i vs = map (\<lambda>a. a ! i) vs"

definition uniform :: "nat \<Rightarrow> jsval list list \<Rightarrow> bool" where
  "uniform L ws = list_all (\<lambda>a. length a = L \<and> list_all isFinite a) ws"

text \<open>A sample that carries a region-width vector and nothing else.\<close>

definition widths_only :: "jsval list \<Rightarrow> sample" where
  "widths_only v =
     \<lparr>s_structure = Nullish, s_balance = Nullish, s_posture = Nullish, s_velocity = Nullish,
      s_emotions = None, s_regionWidths = Some v, s_segmentProfile = None\<rparr>"

text \<open>
  What a list of timed samples supplies to the fields: the non-empty region-width and
  segment-profile vectors (an empty one is ignored by \<open>OnlineMeanArray.add\<close>), and the
  \<open>emotions\<close> objects.
\<close>

definition region_vectors :: "(real \<times> sample) list \<Rightarrow> jsval list list" where
  "region_vectors xs = filter (\<lambda>v. v \<noteq> []) (somes (map (\<lambda>p. s_regionWidths (snd p)) xs))"

definition emotion_objects :: "(real \<times> sample) list \<Rightarrow> (emotion \<Rightarrow> jsval) list" where
  "emotion_objects xs = somes (map (\<lambda>p. s_emotions (snd p)) xs)"

definition segment_vectors :: "(real \<times> sample) list \<Rightarrow> jsval list list" where
  "segment_vectors xs = filter (\<lambda>v. v \<noteq> []) (somes (map (\<lambda>p. s_segmentProfile (snd p)) xs))"

text \<open>
  A scalar accumulator agrees with a list of supplied values: it counted the finite ones
  and holds their arithmetic mean. A vector accumulator agrees with a list of vectors of
  length \<open>L\<close>: it counted them and holds the arithmetic mean of each column.
\<close>

definition scalar_ok :: "OnlineMean \<Rightarrow> jsval list \<Rightarrow> bool" where
  "scalar_ok m vals \<longleftrightarrow>
     om_n m = length (finite_vals vals) \<and> om_mean m = arith_mean (finite_vals vals)"

definition vector_ok :: "OnlineMeanArray \<Rightarrow> nat \<Rightarrow> jsval list list \<Rightarrow> bool" where
  "vector_ok a L ws \<longleftrightarrow>
     oma_n a = length ws \<and>
     oma_means a = map (\<lambda>i. arith_mean (finite_vals (column i ws))) [0..<L]"

text \<open>A sample whose scalars are all non-finite and that has no emotions and no vectors.\<close>

definition nothing_finite :: sample where
  "nothing_finite =
     \<lparr>s_structure = NaN, s_balance = PosInfinity, s_posture = NegInfinity, s_velocity = NaN,
      s_emotions = None, s_regionWidths = None, s_segmentProfile = None\<rparr>"

section \<open>Notions the statements about the pipeline use\<close>

text \<open>
  The state when the sketch has loaded and \<open>setup()\<close> has created the sliders, and the
  default options of \<open>resetAll\<close>.
\<close>

definition pipeline_init :: pipeline where
  "pipeline_init =
     \<lparr>prevKeypoints = None, prevByPart = Map.empty,
      movementVelocity = 0, smoothedStructure = 0, smoothedBalance = 0,
      smoothedPostureLean = 0, smoothedAvgY = 0, fastVel = 0, slowVel = 0,
      sadnessInMax = None, emotionSliders = (\<lambda>k. 0), regionSliders = (\<lambda>r. 0),
      blockIncomingUntil = 0\<rparr>"

definition defaultOpts :: resetOpts where
  "defaultOpts = \<lparr>echo = True, resetPoseCaches = True, stopTrackingNow = True\<rparr>"

text \<open>
  Concrete inputs for the examples: a point, a keypoint, a pose with given keypoints and
  fixed named parts, and an environment without capture element (so that the frame is
  taken as 640 by 480).
\<close>

definition pt :: "real \<Rightarrow> real \<Rightarrow> point" where
  "pt a b = \<lparr>px = a, py = b\<rparr>"

definition kp :: "string \<Rightarrow> real \<Rightarrow> real \<Rightarrow> real \<Rightarrow> keypoint" where
  "kp name a b sc = \<lparr>part = name, position = pt a b, score = sc\<rparr>"

definition standing :: "keypoint list \<Rightarrow> pose" where
  "standing ks =
     \<lparr>keypoints = ks,
      leftShoulder = pt 400 100, rightShoulder = pt 200 100,
      leftWrist = pt 450 300, rightWrist = pt 150 300,
      leftHip = pt 350 350, rightHip = pt 250 350\<rparr>"

definition env0 :: env where
  "env0 = \<lparr>video = None, canvasHeight = 480, spineMaxWidth = 100\<rparr>"

text \<open>
  A value in \<open>[0,5]\<close>; a store all of whose emotion values and all of whose six region
  widths are in \<open>[0,5]\<close> (the spine is a pixel offset and is not bounded); and a supplied
  object all of whose values, but the one for the key \<open>spine\<close>, are in \<open>[0,5]\<close>.
\<close>

definition in05 :: "real \<Rightarrow> bool" where
  "in05 v \<longleftrightarrow> 0 \<le> v \<and> v \<le> 5"

definition sliders_in_range :: "pipeline \<Rightarrow> bool" where
  "sliders_in_range s \<longleftrightarrow>
     (\<forall>k. in05 (emotionSliders s k)) \<and> (\<forall>r \<in> set regionNames. in05 (regionSliders s r))"

definition values_in_range :: "(string \<times> real) list \<Rightarrow> bool" where
  "values_in_range kvs \<longleftrightarrow> (\<forall>(k, v) \<in> set kvs. k \<noteq> ''spine'' \<longrightarrow> in05 v)"

text \<open>
  The inputs on which \<open>updatePoseFactors\<close> and \<open>coupleRegionsToPose\<close> divide by no
  zero: the two shoulders are not the same point (\<open>span\<close> is a divisor there), and the
  upper input bound of the sadness mapping is not 0.
\<close>

definition nondegenerate :: "env \<Rightarrow> pose \<Rightarrow> pipeline \<Rightarrow> bool" where
  "nondegenerate e pose s \<longleftrightarrow>
     leftShoulder pose \<noteq> rightShoulder pose \<and>
     (case sadnessInMax s of None \<Rightarrow> canvasHeight e \<noteq> 0 | Some m \<Rightarrow> m \<noteq> 0) \<and>
     (get pose ''leftShoulder'' = None \<or> get pose ''leftShoulder'' \<noteq> get pose ''rightShoulder'')"

definition regions_in05 :: "pipeline \<Rightarrow> bool" where
  "regions_in05 s \<longleftrightarrow> (\<forall>r. r \<noteq> spine \<longrightarrow> in05 (regionSliders s r))"

text \<open>
  The parts and positions of the keypoints that pass the confidence filter, as
  \<open>updatePoseFactors\<close> stores them in \<open>__prevKeypoints\<close>.
\<close>

definition vis :: "pose \<Rightarrow> (string \<times> point) list" where
  "vis P = map (\<lambda>k. (part k, position k)) (filter visible (keypoints P))"

text \<open>The cache \<open>c\<close> holds the current position of every part of \<open>N\<close> that the pose shows.\<close>

definition synced :: "(string \<rightharpoonup> point) \<Rightarrow> pose \<Rightarrow> string set \<Rightarrow> bool" where
  "synced c P N \<longleftrightarrow> (\<forall>name \<in> N. get P name = None \<or> c name = get P name)"

text \<open>
  The term that the loop of \<open>regionVelocity\<close> adds for one part against the cache \<open>c\<close>;
  \<open>None\<close> when the part is not counted (not visible, or not cached yet).
\<close>

definition displacement :: "env \<Rightarrow> pose \<Rightarrow> (string \<rightharpoonup> point) \<Rightarrow> string \<Rightarrow> real option" where
  "displacement e P c name =
     (case (get P name, c name) of
        (Some p, Some q) \<Rightarrow> Some (hypot ((px p - px q) / diag e) ((py p - py q) / diag e))
      | _ \<Rightarrow> None)"

text \<open>
  The condition under which the block of a region runs (head and neck always do), the
  part names its \<open>regionVelocity\<close> call then reads, and those of all six blocks.
\<close>

fun guard :: "pose \<Rightarrow> region \<Rightarrow> bool" where
  "guard P head = True"
| "guard P neck = True"
| "guard P armsHands =
     (get P ''leftWrist'' \<noteq> None \<and> get P ''rightWrist'' \<noteq> None \<and>
      get P ''leftShoulder'' \<noteq> None \<and> get P ''rightShoulder'' \<noteq> None)"
| "guard P chest = (get P ''leftShoulder'' \<noteq> None \<and> get P ''rightShoulder'' \<noteq> None)"
| "guard P abdomen =
     (get P ''leftShoulder'' \<noteq> None \<and> get P ''rightShoulder'' \<noteq> None \<and>
      get P ''leftHip'' \<noteq> None \<and> get P ''rightHip'' \<noteq> None)"
| "guard P legsFeet =
     (get P ''leftAnkle'' \<noteq> None \<and> get P ''rightAnkle'' \<noteq> None \<and>
      get P ''leftHip'' \<noteq> None \<and> get P ''rightHip'' \<noteq> None)"
| "guard P spine = (get P ''leftShoulder'' \<noteq> None \<and> get P ''rightShoulder'' \<noteq> None)"

definition readKeys :: "pose \<Rightarrow> region \<Rightarrow> string set" where
  "readKeys P r = (if guard P r then set (regionKeypoints r) else {})"

definition allReadKeys :: "pose \<Rightarrow> string set" where
  "allReadKeys P = (\<Union>r \<in> set regionNames. readKeys P r)"

text \<open>Two poses for the examples.\<close>

definition shoulders_and_wrists :: pose where
  "shoulders_and_wrists =
     standing [kp ''leftShoulder'' 400 100 0.9, kp ''rightShoulder'' 200 100 0.9,
               kp ''leftWrist'' 450 300 0.8, kp ''rightWrist'' 150 300 0.8]"

definition one_shoulder :: pose where
  "one_shoulder = standing [kp ''leftShoulder'' 800 0 0.9]"

text \<open>
  A pose in which one part name occurs twice among the confident keypoints, and a pose
  whose keypoints have scores above, at and below the threshold.
\<close>

definition twice_nose :: pose where
  "twice_nose = standing [kp ''nose'' 0 0 0.9, kp ''nose'' 800 0 0.9]"

definition mixed_scores :: pose where
  "mixed_scores =
     standing [kp ''nose'' 10 20 0.9, kp ''leftEye'' 30 40 0.5, kp ''rightEye'' 50 60 0.1]"

section \<open>The session accumulator: proofs\<close>

lemma finite_vals_append: "finite_vals (xs @ ys) = finite_vals xs @ finite_vals ys"
  by (induction xs rule: finite_vals.induct) auto

lemma OnlineMean_add_inv:
  assumes "om_mean m * real (om_n m) = S"
  shows "om_n (OnlineMean_add m x) = om_n m + length (finite_vals [x]) \<and>
         om_mean (OnlineMean_add m x) * real (om_n (OnlineMean_add m x)) = S + sum_list (finite_vals [x])"
  using assms by (cases x) (auto simp: Let_def field_simps)

lemma OnlineMean_foldl:
  "om_n (foldl OnlineMean_add OnlineMean_new xs) = length (finite_vals xs) \<and>
   om_mean (foldl OnlineMean_add OnlineMean_new xs) * real (length (finite_vals xs)) = sum_list (finite_vals xs)"
proof (induction xs rule: rev_induct)
  case Nil
  show ?case by (simp add: OnlineMean_new_def)
next
  case (snoc x xs)
  let ?m = "foldl OnlineMean_add OnlineMean_new xs"
  from snoc have "om_mean ?m * real (om_n ?m) = sum_list (finite_vals xs)" by simp
  from OnlineMean_add_inv[OF this, of x]
  have A: "om_n (OnlineMean_add ?m x) = om_n ?m + length (finite_vals [x])"
    and B: "om_mean (OnlineMean_add ?m x) * real (om_n (OnlineMean_add ?m x)) =
            sum_list (finite_vals xs) + sum_list (finite_vals [x])" by blast+
  from snoc have n: "om_n ?m = length (finite_vals xs)" by simp
  show ?case using B unfolding A n by (simp add: finite_vals_append A n)
qed

lemma OnlineMean_foldl_mean:
  "om_mean (foldl OnlineMean_add OnlineMean_new xs) = arith_mean (finite_vals xs)"
proof (cases "finite_vals xs = []")
  case True
  have "om_mean (foldl OnlineMean_add m xs) = om_mean m" if "finite_vals xs = []" for m
    using that by (induction xs arbitrary: m rule: finite_vals.induct) auto
  with True show ?thesis by (simp add: arith_mean_def OnlineMean_new_def)
next
  case False
  then have "real (length (finite_vals xs)) \<noteq> 0" by simp
  with OnlineMean_foldl[of xs] False show ?thesis
    by (simp add: arith_mean_def field_simps)
qed

lemma oma_loop_eq:
  "i + length xs = length ms \<Longrightarrow>
   oma_loop k i xs ms = take i ms @ map2 (upd_mean k) (drop i ms) xs"
proof (induction xs arbitrary: i ms)
  case Nil
  then show ?case by simp
next
  case (Cons x xs)
  then have i: "i < length ms" by simp
  let ?ms = "(case x of Num v \<Rightarrow> ms[i := ms ! i + (v - ms ! i) / real k] | _ \<Rightarrow> ms)"
  have len: "length ?ms = length ms" by (cases x) auto
  have eq: "?ms = ms[i := upd_mean k (ms ! i) x]"
    by (cases x) (auto simp: upd_mean_def)
  have "oma_loop k i (x # xs) ms = oma_loop k (Suc i) xs ?ms" by simp
  also have "\<dots> = take (Suc i) ?ms @ map2 (upd_mean k) (drop (Suc i) ?ms) xs"
    using Cons.prems len by (intro Cons.IH) simp
  also have "take (Suc i) ?ms = take i ms @ [upd_mean k (ms ! i) x]"
    using i by (simp add: eq take_Suc_conv_app_nth)
  also have "drop (Suc i) ?ms = drop (Suc i) ms" by (simp add: eq)
  finally show ?case using i by (simp add: Cons_nth_drop_Suc[symmetric])
qed

lemma run_session_snoc:
  "run_session t0 s0 (xs @ [(t, x)]) = SessionAverager_add t x (run_session t0 s0 xs)"
  by (simp add: run_session_def)

lemma SessionAverager_add_active:
  "active (SessionAverager_add t x s) = active s"
  by (simp add: SessionAverager_add_def Let_def split: option.splits)

lemma run_session_active: "active (run_session t0 s0 xs)"
proof (induction xs rule: rev_induct)
  case Nil
  show ?case by (simp add: run_session_def SessionAverager_begin_def)
next
  case (snoc p xs)
  then show ?case by (cases p) (simp add: run_session_snoc SessionAverager_add_active)
qed

lemma add_fields:
  assumes "active s"
  shows "structure' (SessionAverager_add t x s) = OnlineMean_add (structure' s) (orZero (s_structure x))"
    and "balance (SessionAverager_add t x s) = OnlineMean_add (balance s) (orZero (s_balance x))"
    and "posture (SessionAverager_add t x s) = OnlineMean_add (posture s) (orZero (s_posture x))"
    and "velocity (SessionAverager_add t x s) = OnlineMean_add (velocity s) (orZero (s_velocity x))"
    and "emotions (SessionAverager_add t x s) =
           (case s_emotions x of None \<Rightarrow> emotions s
            | Some e \<Rightarrow> add_emotions emotionNames e (emotions s))"
    and "regionWidths (SessionAverager_add t x s) =
           (case s_regionWidths x of None \<Rightarrow> regionWidths s
            | Some arr \<Rightarrow> OnlineMeanArray_add (regionWidths s) arr)"
    and "segmentProfile (SessionAverager_add t x s) =
           (case s_segmentProfile x of None \<Rightarrow> segmentProfile s
            | Some arr \<Rightarrow> OnlineMeanArray_add (segmentProfile s) arr)"
    and "samples (SessionAverager_add t x s) = samples s + 1"
  using assms by (simp_all add: SessionAverager_add_def Let_def split: option.splits)

lemma add_emotions_apply:
  "distinct ks \<Longrightarrow>
   add_emotions ks e ms k = (if k \<in> set ks then OnlineMean_add (ms k) (orZero (e k)) else ms k)"
  by (induction ks arbitrary: ms) auto

lemma add_emotions_all:
  "add_emotions emotionNames e ms k = OnlineMean_add (ms k) (orZero (e k))"
proof -
  have "distinct emotionNames" by (simp add: emotionNames_def)
  moreover have "k \<in> set emotionNames" by (cases k) (simp_all add: emotionNames_def)
  ultimately show ?thesis by (simp add: add_emotions_apply)
qed

lemma somes_append: "somes (xs @ ys) = somes xs @ somes ys"
  by (induction xs rule: somes.induct) auto

lemma session_structure:
  "structure' (run_session t0 s0 xs) =
     foldl OnlineMean_add OnlineMean_new (map (\<lambda>p. orZero (s_structure (snd p))) xs)"
proof (induction xs rule: rev_induct)
  case Nil
  show ?case by (simp add: run_session_def SessionAverager_begin_def SessionAverager_reset_def)
next
  case (snoc p xs)
  then show ?case
    by (cases p) (simp add: run_session_snoc add_fields run_session_active)
qed

lemma session_emotions:
  "emotions (run_session t0 s0 xs) k =
     foldl OnlineMean_add OnlineMean_new
       (map (\<lambda>e. orZero (e k)) (somes (map (\<lambda>p. s_emotions (snd p)) xs)))"
proof (induction xs rule: rev_induct)
  case Nil
  show ?case by (simp add: run_session_def SessionAverager_begin_def SessionAverager_reset_def)
next
  case (snoc p xs)
  then show ?case
    by (cases p)
      (simp add: run_session_snoc add_fields run_session_active somes_append add_emotions_all
        split: option.splits)
qed

lemma session_regionWidths:
  "regionWidths (run_session t0 s0 xs) =
     foldl OnlineMeanArray_add (OnlineMeanArray_new 6) (somes (map (\<lambda>p. s_regionWidths (snd p)) xs))"
proof (induction xs rule: rev_induct)
  case Nil
  show ?case by (simp add: run_session_def SessionAverager_begin_def SessionAverager_reset_def)
next
  case (snoc p xs)
  then show ?case
    by (cases p)
      (simp add: run_session_snoc add_fields run_session_active somes_append split: option.splits)
qed

lemma oma_add_Nil: "OnlineMeanArray_add a [] = a"
  by (simp add: OnlineMeanArray_add_def)

lemma oma_foldl_filter:
  "foldl OnlineMeanArray_add a vs = foldl OnlineMeanArray_add a (filter (\<lambda>v. v \<noteq> []) vs)"
  by (induction vs arbitrary: a) (auto simp: oma_add_Nil)

lemma oma_add_means:
  assumes "arr \<noteq> []"
  shows "oma_means (OnlineMeanArray_add a arr) =
           map2 (upd_mean (oma_n a + 1))
             (if length (oma_means a) \<noteq> length arr then replicate (length arr) 0 else oma_means a) arr"
    and "oma_n (OnlineMeanArray_add a arr) = oma_n a + 1"
  using assms by (auto simp: OnlineMeanArray_add_def Let_def oma_loop_eq)

lemma isFinite_Num: "isFinite x \<Longrightarrow> \<exists>r. x = Num r"
  by (cases x) auto

lemma finite_vals_column_snoc:
  "finite_vals (column i (ws @ [v])) = finite_vals (column i ws) @ finite_vals [v ! i]"
  by (simp add: column_def finite_vals_append)

lemma oma_inv:
  assumes "uniform L ws" "0 < L"
  shows "oma_n (foldl OnlineMeanArray_add (OnlineMeanArray_new n0) ws) = length ws \<and>
         (ws = [] \<longrightarrow> oma_means (foldl OnlineMeanArray_add (OnlineMeanArray_new n0) ws) = replicate n0 0) \<and>
         (ws \<noteq> [] \<longrightarrow> length (oma_means (foldl OnlineMeanArray_add (OnlineMeanArray_new n0) ws)) = L \<and>
            (\<forall>i<L. oma_means (foldl OnlineMeanArray_add (OnlineMeanArray_new n0) ws) ! i * real (length ws)
                     = sum_list (finite_vals (column i ws))))"
  using assms
proof (induction ws rule: rev_induct)
  case Nil
  show ?case by (simp add: OnlineMeanArray_new_def)
next
  case (snoc v ws)
  let ?a = "foldl OnlineMeanArray_add (OnlineMeanArray_new n0) ws"
  from snoc.prems have u: "uniform L ws" and lv: "length v = L" and fv: "list_all isFinite v"
    by (simp_all add: uniform_def)
  from lv \<open>0 < L\<close> have vne: "v \<noteq> []" by auto
  note IH = snoc.IH[OF u \<open>0 < L\<close>]
  let ?ms = "if length (oma_means ?a) \<noteq> length v then replicate (length v) 0 else oma_means ?a"
  have lms: "length ?ms = L" using lv by simp
  have n': "oma_n (OnlineMeanArray_add ?a v) = length ws + 1"
    using IH by (simp add: oma_add_means(2)[OF vne])
  have m': "oma_means (OnlineMeanArray_add ?a v) = map2 (upd_mean (length ws + 1)) ?ms v"
    using IH oma_add_means(1)[OF vne, of ?a] by simp
  have len': "length (oma_means (OnlineMeanArray_add ?a v)) = L"
    unfolding m' using lms lv by simp
  have el: "oma_means (OnlineMeanArray_add ?a v) ! i * real (length ws + 1)
              = sum_list (finite_vals (column i (ws @ [v])))" if i: "i < L" for i
  proof -
    from fv i lv have "isFinite (v ! i)" by (simp add: list_all_length)
    then obtain r where r: "v ! i = Num r" using isFinite_Num by blast
    have msi: "?ms ! i * real (length ws) = sum_list (finite_vals (column i ws))"
    proof (cases "ws = []")
      case True
      with IH i lv show ?thesis by (auto simp: column_def)
    next
      case False
      with IH i lv show ?thesis by auto
    qed
    have "oma_means (OnlineMeanArray_add ?a v) ! i = upd_mean (length ws + 1) (?ms ! i) (v ! i)"
      unfolding m' using i lms lv by simp
    also have "\<dots> = ?ms ! i + (r - ?ms ! i) / real (length ws + 1)"
      by (simp add: upd_mean_def r)
    finally have "oma_means (OnlineMeanArray_add ?a v) ! i * real (length ws + 1)
        = ?ms ! i * real (length ws) + r"
      by (simp add: field_simps)
    with msi show ?thesis by (simp add: finite_vals_column_snoc r)
  qed
  show ?case using n' len' el by simp
qed

lemma end_regionWidths:
  "out_regionWidths (fst (SessionAverager_end t s)) = oma_means (regionWidths s)"
  by (simp add: SessionAverager_end_def)

lemma upd_mean_Num: "upd_mean k m (Num v) = m + (v - m) / real k"
  by (simp add: upd_mean_def)

lemma replicate_6: "replicate 6 x = [x, x, x, x, x, x]"
  by (simp add: eval_nat_numeral)

lemma replicate_3: "replicate 3 x = [x, x, x]"
  by (simp add: eval_nat_numeral)

subsection \<open>The worked example of three region-width vectors\<close>

text \<open>
  Claim C5, as amended. A session that, after \<open>begin()\<close>, receives exactly three samples
  whose region-width vectors are \<open>[1,2,3,4,5,6]\<close>, \<open>[3,2,1,0,1,2]\<close> and \<open>[2,2,2,2,2,2]\<close>
  ends with the mean vector \<open>[2, 2, 2, 2, 8/3, 10/3]\<close>: the fifth entry is the mean of
  5, 1 and 2, which is 8/3 and not 3.
\<close>

theorem three_width_vectors_mean:
  assumes "s_regionWidths x1 = Some (map Num [1, 2, 3, 4, 5, 6])"
    and "s_regionWidths x2 = Some (map Num [3, 2, 1, 0, 1, 2])"
    and "s_regionWidths x3 = Some (map Num [2, 2, 2, 2, 2, 2])"
  shows "out_regionWidths (fst (SessionAverager_end t4
           (run_session t0 s0 [(t1, x1), (t2, x2), (t3, x3)]))) = [2, 2, 2, 2, 8 / 3, 10 / 3]"
  using assms
  by (simp add: end_regionWidths session_regionWidths oma_add_means OnlineMeanArray_new_def
      upd_mean_Num replicate_6)

text \<open>The theorem at three samples that carry nothing but their region widths.\<close>

theorem three_width_vectors_mean_witness:
  "out_regionWidths (fst (SessionAverager_end 4
     (run_session 0 SessionAverager_reset
        [(1, widths_only (map Num [1, 2, 3, 4, 5, 6])),
         (2, widths_only (map Num [3, 2, 1, 0, 1, 2])),
         (3, widths_only (map Num [2, 2, 2, 2, 2, 2]))]))) = [2, 2, 2, 2, 8 / 3, 10 / 3]"
  by (rule three_width_vectors_mean) (simp_all add: widths_only_def)

text \<open>The vector the claim gives is not what the same session ends with.\<close>

theorem three_width_vectors_mean_counterexample:
  "out_regionWidths (fst (SessionAverager_end 4
     (run_session 0 SessionAverager_reset
        [(1, widths_only (map Num [1, 2, 3, 4, 5, 6])),
         (2, widths_only (map Num [3, 2, 1, 0, 1, 2])),
         (3, widths_only (map Num [2, 2, 2, 2, 2, 2]))]))) \<noteq> [2, 2, 2, 2, 3, 10 / 3]"
  by (simp add: end_regionWidths session_regionWidths oma_add_means OnlineMeanArray_new_def
      upd_mean_Num widths_only_def replicate_6)

lemma session_balance:
  "balance (run_session t0 s0 xs) =
     foldl OnlineMean_add OnlineMean_new (map (\<lambda>p. orZero (s_balance (snd p))) xs)"
proof (induction xs rule: rev_induct)
  case Nil
  show ?case by (simp add: run_session_def SessionAverager_begin_def SessionAverager_reset_def)
next
  case (snoc p xs)
  then show ?case
    by (cases p) (simp add: run_session_snoc add_fields run_session_active)
qed

lemma session_posture:
  "posture (run_session t0 s0 xs) =
     foldl OnlineMean_add OnlineMean_new (map (\<lambda>p. orZero (s_posture (snd p))) xs)"
proof (induction xs rule: rev_induct)
  case Nil
  show ?case by (simp add: run_session_def SessionAverager_begin_def SessionAverager_reset_def)
next
  case (snoc p xs)
  then show ?case
    by (cases p) (simp add: run_session_snoc add_fields run_session_active)
qed

lemma session_velocity:
  "velocity (run_session t0 s0 xs) =
     foldl OnlineMean_add OnlineMean_new (map (\<lambda>p. orZero (s_velocity (snd p))) xs)"
proof (induction xs rule: rev_induct)
  case Nil
  show ?case by (simp add: run_session_def SessionAverager_begin_def SessionAverager_reset_def)
next
  case (snoc p xs)
  then show ?case
    by (cases p) (simp add: run_session_snoc add_fields run_session_active)
qed

lemma session_segmentProfile:
  "segmentProfile (run_session t0 s0 xs) =
     foldl OnlineMeanArray_add (OnlineMeanArray_new 3) (somes (map (\<lambda>p. s_segmentProfile (snd p)) xs))"
proof (induction xs rule: rev_induct)
  case Nil
  show ?case by (simp add: run_session_def SessionAverager_begin_def SessionAverager_reset_def)
next
  case (snoc p xs)
  then show ?case
    by (cases p)
      (simp add: run_session_snoc add_fields run_session_active somes_append split: option.splits)
qed

lemma session_samples: "samples (run_session t0 s0 xs) = length xs"
proof (induction xs rule: rev_induct)
  case Nil
  show ?case by (simp add: run_session_def SessionAverager_begin_def SessionAverager_reset_def)
next
  case (snoc p xs)
  then show ?case
    by (cases p) (simp add: run_session_snoc add_fields run_session_active)
qed

lemma scalar_ok_foldl: "scalar_ok (foldl OnlineMean_add OnlineMean_new vals) vals"
  using OnlineMean_foldl[of vals] by (simp add: scalar_ok_def OnlineMean_foldl_mean)

lemma arith_mean_column:
  assumes "uniform L ws" "i < L" "ws \<noteq> []"
  shows "length (finite_vals (column i ws)) = length ws"
  using assms(1,2)
proof (induction ws)
  case Nil
  show ?case by (simp add: column_def)
next
  case (Cons v ws)
  from Cons.prems have "length v = L" "list_all isFinite v" by (simp_all add: uniform_def)
  with \<open>i < L\<close> have "isFinite (v ! i)" by (simp add: list_all_length)
  then obtain r where "v ! i = Num r" using isFinite_Num by blast
  with Cons show ?case by (simp add: column_def uniform_def)
qed

lemma vector_ok_foldl:
  assumes "uniform L ws" "list_all (\<lambda>v. v \<noteq> []) ws"
  shows "vector_ok (foldl OnlineMeanArray_add (OnlineMeanArray_new n0) ws)
           (if ws = [] then n0 else L) ws"
proof (cases "ws = []")
  case True
  then show ?thesis
    by (simp add: vector_ok_def OnlineMeanArray_new_def column_def arith_mean_def map_replicate_const)
next
  case False
  then obtain v ws' where ws: "ws = v # ws'" by (cases ws) auto
  with assms have "length v = L" "v \<noteq> []" by (simp_all add: uniform_def)
  then have L: "0 < L" by auto
  let ?a = "foldl OnlineMeanArray_add (OnlineMeanArray_new n0) ws"
  from oma_inv[OF assms(1) L, of n0] False
  have n: "oma_n ?a = length ws" and len: "length (oma_means ?a) = L"
    and el: "\<And>i. i < L \<Longrightarrow> oma_means ?a ! i * real (length ws) = sum_list (finite_vals (column i ws))"
    by auto
  have "oma_means ?a = map (\<lambda>i. arith_mean (finite_vals (column i ws))) [0..<L]"
  proof (rule nth_equalityI)
    show "length (oma_means ?a) = length (map (\<lambda>i. arith_mean (finite_vals (column i ws))) [0..<L])"
      using len by simp
  next
    fix i assume "i < length (oma_means ?a)"
    then have i: "i < L" using len by simp
    have lc: "length (finite_vals (column i ws)) = length ws"
      using arith_mean_column[OF assms(1) i False] .
    then have ne: "finite_vals (column i ws) \<noteq> []" using False by auto
    have "real (length ws) \<noteq> 0" using False by simp
    with el[OF i] have "oma_means ?a ! i = sum_list (finite_vals (column i ws)) / real (length ws)"
      by (simp add: field_simps)
    then show "oma_means ?a ! i = map (\<lambda>i. arith_mean (finite_vals (column i ws))) [0..<L] ! i"
      using i ne lc by (simp add: arith_mean_def)
  qed
  with n False show ?thesis by (simp add: vector_ok_def)
qed

lemma list_all_filter_ne: "list_all (\<lambda>v. v \<noteq> []) (filter (\<lambda>v. v \<noteq> []) vs)"
  by (induction vs) auto

subsection \<open>Running means are arithmetic means\<close>

text \<open>
  Claim C1, as amended. After \<open>begin()\<close> and any sequence of \<open>add\<close> calls:
  each scalar field (structure, balance, posture, velocity) has counted exactly the finite
  values supplied for it, a missing (nullish) value counting as the number 0, and its
  mean is their arithmetic mean (0 when there is none); each of the six emotions likewise,
  over the samples that carry an \<open>emotions\<close> object; and a vector field whose supplied
  non-empty vectors all have one length \<open>L\<close> and only finite elements holds, per element,
  the arithmetic mean of that element over those vectors (and still its initial zero
  vector when no non-empty vector was supplied).
\<close>

theorem session_running_means:
  "scalar_ok (structure' (run_session t0 s0 xs)) (map (\<lambda>p. orZero (s_structure (snd p))) xs) \<and>
   scalar_ok (balance (run_session t0 s0 xs)) (map (\<lambda>p. orZero (s_balance (snd p))) xs) \<and>
   scalar_ok (posture (run_session t0 s0 xs)) (map (\<lambda>p. orZero (s_posture (snd p))) xs) \<and>
   scalar_ok (velocity (run_session t0 s0 xs)) (map (\<lambda>p. orZero (s_velocity (snd p))) xs) \<and>
   (\<forall>k. scalar_ok (emotions (run_session t0 s0 xs) k)
          (map (\<lambda>e. orZero (e k)) (emotion_objects xs))) \<and>
   (uniform L (region_vectors xs) \<longrightarrow>
      vector_ok (regionWidths (run_session t0 s0 xs))
        (if region_vectors xs = [] then 6 else L) (region_vectors xs)) \<and>
   (uniform L' (segment_vectors xs) \<longrightarrow>
      vector_ok (segmentProfile (run_session t0 s0 xs))
        (if segment_vectors xs = [] then 3 else L') (segment_vectors xs))"
proof (intro conjI allI impI)
  show "scalar_ok (structure' (run_session t0 s0 xs)) (map (\<lambda>p. orZero (s_structure (snd p))) xs)"
    by (simp only: session_structure scalar_ok_foldl)
  show "scalar_ok (balance (run_session t0 s0 xs)) (map (\<lambda>p. orZero (s_balance (snd p))) xs)"
    by (simp only: session_balance scalar_ok_foldl)
  show "scalar_ok (posture (run_session t0 s0 xs)) (map (\<lambda>p. orZero (s_posture (snd p))) xs)"
    by (simp only: session_posture scalar_ok_foldl)
  show "scalar_ok (velocity (run_session t0 s0 xs)) (map (\<lambda>p. orZero (s_velocity (snd p))) xs)"
    by (simp only: session_velocity scalar_ok_foldl)
  show "scalar_ok (emotions (run_session t0 s0 xs) k)
          (map (\<lambda>e. orZero (e k)) (emotion_objects xs))" for k
    by (simp only: session_emotions emotion_objects_def scalar_ok_foldl)
  show "vector_ok (regionWidths (run_session t0 s0 xs))
          (if region_vectors xs = [] then 6 else L) (region_vectors xs)"
    if "uniform L (region_vectors xs)"
  proof -
    have "regionWidths (run_session t0 s0 xs) =
            foldl OnlineMeanArray_add (OnlineMeanArray_new 6) (region_vectors xs)"
      unfolding region_vectors_def session_regionWidths by (rule oma_foldl_filter)
    with vector_ok_foldl[OF that, of 6] show ?thesis
      by (simp add: region_vectors_def list_all_filter_ne)
  qed
  show "vector_ok (segmentProfile (run_session t0 s0 xs))
          (if segment_vectors xs = [] then 3 else L') (segment_vectors xs)"
    if "uniform L' (segment_vectors xs)"
  proof -
    have "segmentProfile (run_session t0 s0 xs) =
            foldl OnlineMeanArray_add (OnlineMeanArray_new 3) (segment_vectors xs)"
      unfolding segment_vectors_def session_segmentProfile by (rule oma_foldl_filter)
    with vector_ok_foldl[OF that, of 3] show ?thesis
      by (simp add: segment_vectors_def list_all_filter_ne)
  qed
qed

lemma length_finite_vals_le: "length (finite_vals xs) \<le> length xs"
  by (induction xs rule: finite_vals.induct) auto

lemma length_somes_le: "length (somes xs) \<le> length xs"
  by (induction xs rule: somes.induct) auto

lemma oma_n_foldl_le: "oma_n (foldl OnlineMeanArray_add a vs) \<le> oma_n a + length vs"
proof (induction vs arbitrary: a)
  case Nil
  show ?case by simp
next
  case (Cons v vs)
  have "oma_n (OnlineMeanArray_add a v) \<le> oma_n a + 1"
    by (simp add: OnlineMeanArray_add_def Let_def)
  with Cons[of "OnlineMeanArray_add a v"] show ?case by simp
qed

text \<open>The theorem on a session of two samples with region widths \<open>[1,5]\<close> and \<open>[3,6]\<close>.\<close>

theorem session_running_means_witness:
  "uniform 2 (region_vectors [(1, widths_only [Num 1, Num 5]), (2, widths_only [Num 3, Num 6])]) \<and>
   oma_means (regionWidths (run_session 0 SessionAverager_reset
       [(1, widths_only [Num 1, Num 5]), (2, widths_only [Num 3, Num 6])])) = [2, 11 / 2] \<and>
   om_mean (structure' (run_session 0 SessionAverager_reset
       [(1, widths_only [Num 1, Num 5]), (2, widths_only [Num 3, Num 6])])) = 0"
proof -
  let ?xs = "[(1::real, widths_only [Num 1, Num 5]), (2, widths_only [Num 3, Num 6])]"
  have rv: "region_vectors ?xs = [[Num 1, Num 5], [Num 3, Num 6]]"
    by (simp add: region_vectors_def widths_only_def)
  have u: "uniform 2 (region_vectors ?xs)"
    by (simp add: rv uniform_def)
  have up: "[0..<2] = [0, Suc 0]" by (simp add: upt_rec)
  have sv: "map (\<lambda>p. orZero (s_structure (snd p))) ?xs = [Num 0, Num 0]"
    by (simp add: widths_only_def)
  from session_running_means[of 0 SessionAverager_reset ?xs 2 0] u
  have "vector_ok (regionWidths (run_session 0 SessionAverager_reset ?xs)) 2 [[Num 1, Num 5], [Num 3, Num 6]]"
    and "scalar_ok (structure' (run_session 0 SessionAverager_reset ?xs)) [Num 0, Num 0]"
    unfolding rv sv by simp_all
  then have "oma_means (regionWidths (run_session 0 SessionAverager_reset ?xs)) = [2, 11 / 2]"
    and "om_mean (structure' (run_session 0 SessionAverager_reset ?xs)) = 0"
    by (simp_all add: vector_ok_def scalar_ok_def column_def arith_mean_def up)
  with u show ?thesis by simp
qed

text \<open>
  A vector accumulator has one counter for all its elements. After the region-width
  vectors \<open>[NaN,0,0,0,0,0]\<close> and \<open>[2,0,0,0,0,0]\<close> the first mean is 1, while the only
  finite value supplied for that element is 2.
\<close>

theorem shared_vector_counter_counterexample:
  "oma_means (regionWidths (run_session 0 SessionAverager_reset
       [(1, widths_only [NaN, Num 0, Num 0, Num 0, Num 0, Num 0]),
        (2, widths_only [Num 2, Num 0, Num 0, Num 0, Num 0, Num 0])])) ! 0 = 1 \<and>
   arith_mean (finite_vals (column 0
       (region_vectors
         [(1, widths_only [NaN, Num 0, Num 0, Num 0, Num 0, Num 0]),
          (2, widths_only [Num 2, Num 0, Num 0, Num 0, Num 0, Num 0])]))) = 2"
  by (simp add: session_regionWidths oma_add_means OnlineMeanArray_new_def upd_mean_def
      widths_only_def replicate_6 region_vectors_def column_def arith_mean_def)

subsection \<open>A vector sample of another length\<close>

text \<open>
  Claim C2, on what the code does. When \<open>OnlineMeanArray.add\<close> receives a non-empty vector
  whose length differs from that of its means, the means restart from a zero vector of
  the new length but the counter \<open>n\<close> does not restart: it goes on from its old value,
  so each finite element \<open>v\<close> of the sample is stored as \<open>v / (n + 1)\<close> and not as \<open>v\<close>.
\<close>

theorem vector_length_change_keeps_counter:
  assumes "arr \<noteq> []" and "length (oma_means a) \<noteq> length arr"
  shows "oma_n (OnlineMeanArray_add a arr) = oma_n a + 1 \<and>
         oma_means (OnlineMeanArray_add a arr) =
           map (\<lambda>x. case x of Num v \<Rightarrow> v / real (oma_n a + 1) | _ \<Rightarrow> 0) arr"
proof -
  have h: "map2 (upd_mean k) (replicate (length xs) 0) xs =
          map (\<lambda>x. case x of Num v \<Rightarrow> v / real k | _ \<Rightarrow> 0) xs" for k xs
    by (induction xs) (auto simp: upd_mean_def split: jsval.splits)
  from oma_add_means(1)[OF assms(1), of a] assms(2)
  have "oma_means (OnlineMeanArray_add a arr) =
          map2 (upd_mean (oma_n a + 1)) (replicate (length arr) 0) arr"
    by (simp only: simp_thms if_True)
  then show ?thesis
    by (simp only: h oma_add_means(2)[OF assms(1)] simp_thms)
qed

text \<open>
  A session that receives the region widths \<open>[1,2,3,4,5,6]\<close> and then \<open>[6,6,6]\<close> ends
  with the means \<open>[3,3,3]\<close> and counter 2; a fresh accumulation would hold \<open>[6,6,6]\<close>.
\<close>

theorem vector_length_change_keeps_counter_witness:
  "regionWidths (run_session 0 SessionAverager_reset
       [(1, widths_only (map Num [1, 2, 3, 4, 5, 6])), (2, widths_only (map Num [6, 6, 6]))])
     = \<lparr>oma_means = [3, 3, 3], oma_n = 2\<rparr>"
proof -
  let ?a = "OnlineMeanArray_add (OnlineMeanArray_new 6) (map Num [1, 2, 3, 4, 5, 6])"
  have a: "oma_n ?a = 1" "length (oma_means ?a) = 6"
    by (simp_all add: oma_add_means OnlineMeanArray_new_def)
  have "regionWidths (run_session 0 SessionAverager_reset
       [(1, widths_only (map Num [1, 2, 3, 4, 5, 6])), (2, widths_only (map Num [6, 6, 6]))])
       = OnlineMeanArray_add ?a (map Num [6, 6, 6])"
    by (simp add: session_regionWidths widths_only_def)
  moreover from vector_length_change_keeps_counter[of "map Num [6, 6, 6]" ?a] a
  have "oma_n (OnlineMeanArray_add ?a (map Num [6, 6, 6])) = 2"
    and "oma_means (OnlineMeanArray_add ?a (map Num [6, 6, 6])) = [3, 3, 3]"
    by simp_all
  ultimately show ?thesis by simp
qed

subsection \<open>The sample counter and the field counters\<close>

text \<open>
  Claim C10. On an active accumulator every \<open>add\<close> call increments \<open>samples\<close>, whatever
  the sample carries. So after \<open>begin()\<close> and any sequence of \<open>add\<close> calls \<open>samples\<close>,
  which \<open>end()\<close> reports, is the number of calls, and the counter of every field is at
  most \<open>samples\<close>. The two can differ: after one sample with only non-finite scalars and
  no emotions and no vectors, every field counter is 0 and \<open>samples\<close> is 1.
\<close>

theorem samples_counts_every_add:
  "(active s \<longrightarrow> samples (SessionAverager_add t x s) = samples s + 1) \<and>
   samples (run_session t0 s0 xs) = length xs \<and>
   out_samples (fst (SessionAverager_end t1 (run_session t0 s0 xs))) = samples (run_session t0 s0 xs) \<and>
   om_n (structure' (run_session t0 s0 xs)) \<le> samples (run_session t0 s0 xs) \<and>
   om_n (balance (run_session t0 s0 xs)) \<le> samples (run_session t0 s0 xs) \<and>
   om_n (posture (run_session t0 s0 xs)) \<le> samples (run_session t0 s0 xs) \<and>
   om_n (velocity (run_session t0 s0 xs)) \<le> samples (run_session t0 s0 xs) \<and>
   (\<forall>k. om_n (emotions (run_session t0 s0 xs) k) \<le> samples (run_session t0 s0 xs)) \<and>
   oma_n (regionWidths (run_session t0 s0 xs)) \<le> samples (run_session t0 s0 xs) \<and>
   oma_n (segmentProfile (run_session t0 s0 xs)) \<le> samples (run_session t0 s0 xs) \<and>
   om_n (structure' (run_session t0 s0 [(t, nothing_finite)])) = 0 \<and>
   om_n (balance (run_session t0 s0 [(t, nothing_finite)])) = 0 \<and>
   om_n (posture (run_session t0 s0 [(t, nothing_finite)])) = 0 \<and>
   om_n (velocity (run_session t0 s0 [(t, nothing_finite)])) = 0 \<and>
   (\<forall>k. om_n (emotions (run_session t0 s0 [(t, nothing_finite)]) k) = 0) \<and>
   oma_n (regionWidths (run_session t0 s0 [(t, nothing_finite)])) = 0 \<and>
   oma_n (segmentProfile (run_session t0 s0 [(t, nothing_finite)])) = 0 \<and>
   samples (run_session t0 s0 [(t, nothing_finite)]) = 1"
proof -
  have sc: "om_n (foldl OnlineMean_add OnlineMean_new vals) \<le> length vals" for vals
    using OnlineMean_foldl[of vals] length_finite_vals_le[of vals] by simp
  have e: "om_n (emotions (run_session t0 s0 xs) k) \<le> length xs" for k
  proof -
    have "om_n (emotions (run_session t0 s0 xs) k)
            \<le> length (somes (map (\<lambda>p. s_emotions (snd p)) xs))"
      unfolding session_emotions using sc[of "map (\<lambda>e. orZero (e k)) (somes (map (\<lambda>p. s_emotions (snd p)) xs))"]
      by simp
    also have "\<dots> \<le> length xs" using length_somes_le[of "map (\<lambda>p. s_emotions (snd p)) xs"] by simp
    finally show ?thesis .
  qed
  have r: "oma_n (regionWidths (run_session t0 s0 xs)) \<le> length xs"
    unfolding session_regionWidths
    using oma_n_foldl_le[of "OnlineMeanArray_new 6" "somes (map (\<lambda>p. s_regionWidths (snd p)) xs)"]
      length_somes_le[of "map (\<lambda>p. s_regionWidths (snd p)) xs"]
    by (simp add: OnlineMeanArray_new_def)
  have g: "oma_n (segmentProfile (run_session t0 s0 xs)) \<le> length xs"
    unfolding session_segmentProfile
    using oma_n_foldl_le[of "OnlineMeanArray_new 3" "somes (map (\<lambda>p. s_segmentProfile (snd p)) xs)"]
      length_somes_le[of "map (\<lambda>p. s_segmentProfile (snd p)) xs"]
    by (simp add: OnlineMeanArray_new_def)
  have a: "active s \<longrightarrow> samples (SessionAverager_add t x s) = samples s + 1"
    by (simp add: add_fields)
  have n: "om_n (structure' (run_session t0 s0 [(t, nothing_finite)])) = 0"
    "om_n (balance (run_session t0 s0 [(t, nothing_finite)])) = 0"
    "om_n (posture (run_session t0 s0 [(t, nothing_finite)])) = 0"
    "om_n (velocity (run_session t0 s0 [(t, nothing_finite)])) = 0"
    "\<forall>k. om_n (emotions (run_session t0 s0 [(t, nothing_finite)]) k) = 0"
    "oma_n (regionWidths (run_session t0 s0 [(t, nothing_finite)])) = 0"
    "oma_n (segmentProfile (run_session t0 s0 [(t, nothing_finite)])) = 0"
    by (simp_all add: session_structure session_balance session_posture session_velocity
        session_emotions session_regionWidths session_segmentProfile nothing_finite_def
        OnlineMean_new_def OnlineMeanArray_new_def)
  have s1: "om_n (structure' (run_session t0 s0 xs)) \<le> length xs"
    unfolding session_structure using sc[of "map (\<lambda>p. orZero (s_structure (snd p))) xs"] by simp
  have s2: "om_n (balance (run_session t0 s0 xs)) \<le> length xs"
    unfolding session_balance using sc[of "map (\<lambda>p. orZero (s_balance (snd p))) xs"] by simp
  have s3: "om_n (posture (run_session t0 s0 xs)) \<le> length xs"
    unfolding session_posture using sc[of "map (\<lambda>p. orZero (s_posture (snd p))) xs"] by simp
  have s4: "om_n (velocity (run_session t0 s0 xs)) \<le> length xs"
    unfolding session_velocity using sc[of "map (\<lambda>p. orZero (s_velocity (snd p))) xs"] by simp
  show ?thesis
    using a e r g n s1 s2 s3 s4
    by (simp add: session_samples SessionAverager_end_def)
qed

text \<open>The theorem at the state right after \<open>begin()\<close>, which is active.\<close>

theorem samples_counts_every_add_witness:
  "active (SessionAverager_begin 0 SessionAverager_reset) \<and>
   samples (SessionAverager_add 1 nothing_finite (SessionAverager_begin 0 SessionAverager_reset)) = 1 \<and>
   om_n (structure' (run_session 0 SessionAverager_reset [(1, nothing_finite)])) = 0 \<and>
   samples (run_session 0 SessionAverager_reset [(1, nothing_finite)]) = 1"
  using samples_counts_every_add[where s = "SessionAverager_begin 0 SessionAverager_reset"
      and t = 1 and x = nothing_finite and ?t0.0 = 0 and ?s0.0 = SessionAverager_reset and xs = "[]"]
  by (simp add: SessionAverager_begin_def SessionAverager_reset_def)

section \<open>The slider store and the estimation pipeline: proofs\<close>

subsection \<open>Reset cooldown\<close>

text \<open>
  Claim C6. After \<open>resetAll\<close> at time \<open>now\<close>, an \<open>applySliders\<close> call without
  \<open>force\<close> at a time \<open>now'\<close> before \<open>now + RESET_INPUT_BLOCK_MS\<close> (600 ms) returns at
  its guard: the state is the one \<open>resetAll\<close> left, so every emotion and every region
  entry is still 0, whatever values the call carries.
\<close>

theorem apply_ignored_during_cooldown:
  assumes "now' < now + RESET_INPUT_BLOCK_MS"
  shows "applySliders now' emo reg False (resetAll now opts s) = resetAll now opts s \<and>
         (\<forall>k. emotionSliders (applySliders now' emo reg False (resetAll now opts s)) k = 0) \<and>
         (\<forall>r. regionSliders (applySliders now' emo reg False (resetAll now opts s)) r = 0)"
proof -
  have b: "blockIncomingUntil (resetAll now opts s) = now + RESET_INPUT_BLOCK_MS"
    by (simp add: resetAll_def Let_def)
  have z: "emotionSliders (resetAll now opts s) = (\<lambda>k. 0)"
    "regionSliders (resetAll now opts s) = (\<lambda>r. 0)"
    by (simp_all add: resetAll_def Let_def)
  from assms b have "applySliders now' emo reg False (resetAll now opts s) = resetAll now opts s"
    by (simp add: applySliders_def)
  with z show ?thesis by simp
qed

text \<open>A reset at 1000 ms and an apply of anxiety 5 and head 3 at 1200 ms.\<close>

theorem apply_ignored_during_cooldown_witness:
  "(1200::real) < 1000 + RESET_INPUT_BLOCK_MS \<and>
   emotionSliders (applySliders 1200 [(''anxiety'', 5)] [(''head'', 3)] False
      (resetAll 1000 defaultOpts pipeline_init)) anxiety = 0 \<and>
   regionSliders (applySliders 1200 [(''anxiety'', 5)] [(''head'', 3)] False
      (resetAll 1000 defaultOpts pipeline_init)) head = 0"
proof -
  have h: "(1200::real) < 1000 + RESET_INPUT_BLOCK_MS" by (simp add: RESET_INPUT_BLOCK_MS_def)
  from apply_ignored_during_cooldown[OF h, of "[(''anxiety'', 5)]" "[(''head'', 3)]" defaultOpts pipeline_init]
  show ?thesis using h by blast
qed

subsection \<open>The confidence filter and frames without confident keypoints\<close>

lemma hypot_nonneg: "0 \<le> hypot a b"
  by (simp add: hypot_def)

lemma hypot_0: "hypot 0 0 = 0"
  by (simp add: hypot_def)

lemma hypot_eq_0: "hypot a b = 0 \<longleftrightarrow> a = 0 \<and> b = 0"
  by (auto simp: hypot_def add_nonneg_eq_0_iff)

lemma videoWidth_nz: "videoWidth e \<noteq> 0"
  by (simp add: videoWidth_def split: option.splits)

lemma diag_pos: "0 < diag e"
proof -
  have "hypot (videoWidth e) (videoHeight e) \<noteq> 0"
    using videoWidth_nz by (simp add: hypot_eq_0)
  with hypot_nonneg[of "videoWidth e" "videoHeight e"] show ?thesis
    by (simp add: diag_def Let_def)
qed

lemma findPart_None_iff: "findPart pose name = None \<longleftrightarrow> get pose name = None"
  by (simp add: get_def)

lemma findPart_no_visible:
  "filter visible (keypoints pose) = [] \<Longrightarrow> findPart pose name = None"
  by (auto simp: findPart_def find_None_iff filter_empty_conv)

lemma rv_loop_no_visible:
  "filter visible (keypoints pose) = [] \<Longrightarrow> rv_loop d pose names acc = acc"
  by (induction names arbitrary: acc) (auto simp: findPart_no_visible)

lemma regionVelocity_no_visible:
  "filter visible (keypoints pose) = [] \<Longrightarrow> regionVelocity e pose parts c = (0, c)"
  by (simp add: regionVelocity_def rv_loop_no_visible)

lemma get_no_visible:
  "filter visible (keypoints pose) = [] \<Longrightarrow> get pose name = None"
  by (simp add: get_def findPart_no_visible)

lemma setRegion_simps [simp]:
  "regionSliders (setRegion r v s) = (regionSliders s)(r := v)"
  "prevByPart (setRegion r v s) = prevByPart s"
  "prevKeypoints (setRegion r v s) = prevKeypoints s"
  "emotionSliders (setRegion r v s) = emotionSliders s"
  "movementVelocity (setRegion r v s) = movementVelocity s"
  by (simp_all add: setRegion_def)

lemma couple_no_visible:
  assumes "filter visible (keypoints pose) = []"
  shows "prevByPart (snd (coupleRegionsToPose e pose s)) = prevByPart s"
    and "prevKeypoints (snd (coupleRegionsToPose e pose s)) = prevKeypoints s"
    and "movementVelocity (snd (coupleRegionsToPose e pose s)) = movementVelocity s"
  using assms
  by (simp_all add: coupleRegionsToPose_def headBlock_def neckBlock_def armsHandsBlock_def
      chestBlock_def abdomenBlock_def legsFeetBlock_def spineBlock_def
      regionVelocity_no_visible get_no_visible Let_def)

subsection \<open>Stored values stay in range\<close>




lemma lerp_convex: "lerp a b t = (1 - t) * a + t * b"
  by (simp add: lerp_def algebra_simps)

lemma lerp_between:
  assumes "0 \<le> t" "t \<le> 1" "lo \<le> a" "a \<le> hi" "lo \<le> b" "b \<le> hi"
  shows "lo \<le> lerp a b t \<and> lerp a b t \<le> hi"
proof -
  have t1: "0 \<le> 1 - t" using assms by simp
  have "(1 - t) * lo + t * lo \<le> (1 - t) * a + t * b"
    using assms t1 by (intro add_mono mult_left_mono) auto
  moreover have "(1 - t) * a + t * b \<le> (1 - t) * hi + t * hi"
    using assms t1 by (intro add_mono mult_left_mono) auto
  ultimately show ?thesis by (simp add: lerp_convex algebra_simps)
qed

lemma lerp_in05: "in05 a \<Longrightarrow> in05 b \<Longrightarrow> 0 \<le> t \<Longrightarrow> t \<le> 1 \<Longrightarrow> in05 (lerp a b t)"
  using lerp_between[of t 0 a 5 b] by (simp add: in05_def)

lemma constrain_in05: "in05 (constrain v 0 5)"
  by (simp add: constrain_def in05_def)

lemma clamp01_in05: "in05 (clamp01 v * 5)"
  by (simp add: clamp01_def in05_def)

lemma headBlock_sliders:
  "regionSliders (snd (headBlock e pose s)) =
     (regionSliders s)(head := lerp (regionSliders s head)
        (constrain (map_p5 (fst (regionVelocity e pose (regionKeypoints head) (prevByPart s)))
           head_velMin head_velMax 0 5) 0 5) head_lerp)"
  by (simp add: headBlock_def Let_def split: prod.splits)

lemma neckBlock_sliders:
  "regionSliders (snd (neckBlock e pose s)) =
     (regionSliders s)(neck := lerp (regionSliders s neck)
        (constrain (map_p5 (fst (regionVelocity e pose (regionKeypoints neck) (prevByPart s)))
           neck_velMin neck_velMax 0 5) 0 5) neck_lerp)"
  by (simp add: neckBlock_def Let_def split: prod.splits)

lemma headBlock_in05: "regions_in05 s \<Longrightarrow> regions_in05 (snd (headBlock e pose s))"
  by (auto simp: regions_in05_def headBlock_def Let_def tune split: prod.splits
      intro!: lerp_in05 constrain_in05)

lemma neckBlock_in05: "regions_in05 s \<Longrightarrow> regions_in05 (snd (neckBlock e pose s))"
  by (auto simp: regions_in05_def neckBlock_def Let_def tune split: prod.splits
      intro!: lerp_in05 constrain_in05)

lemma armsHandsBlock_in05: "regions_in05 s \<Longrightarrow> regions_in05 (snd (armsHandsBlock e pose s))"
  by (auto simp: regions_in05_def armsHandsBlock_def Let_def tune split: prod.splits option.splits
      intro!: lerp_in05 constrain_in05)

lemma chestBlock_in05: "regions_in05 s \<Longrightarrow> regions_in05 (snd (chestBlock e pose s))"
  by (auto simp: regions_in05_def chestBlock_def Let_def tune split: prod.splits option.splits
      intro!: lerp_in05 constrain_in05)

lemma abdomenBlock_in05: "regions_in05 s \<Longrightarrow> regions_in05 (snd (abdomenBlock e pose s))"
  by (auto simp: regions_in05_def abdomenBlock_def Let_def tune split: prod.splits option.splits
      intro!: lerp_in05 constrain_in05)

lemma legsFeetBlock_in05: "regions_in05 s \<Longrightarrow> regions_in05 (snd (legsFeetBlock e pose s))"
  by (auto simp: regions_in05_def legsFeetBlock_def Let_def tune split: prod.splits option.splits
      intro!: lerp_in05 constrain_in05)

lemma spineBlock_in05: "regions_in05 s \<Longrightarrow> regions_in05 (spineBlock e pose s)"
  by (auto simp: regions_in05_def spineBlock_def Let_def split: prod.splits option.splits)

lemma couple_in05: "regions_in05 s \<Longrightarrow> regions_in05 (snd (coupleRegionsToPose e pose s))"
  by (simp add: coupleRegionsToPose_def split_beta headBlock_in05 neckBlock_in05
      armsHandsBlock_in05 chestBlock_in05 abdomenBlock_in05 legsFeetBlock_in05 spineBlock_in05)


lemma regions_in05_iff: "regions_in05 s \<longleftrightarrow> (\<forall>r \<in> set regionNames. in05 (regionSliders s r))"
proof -
  have "r \<in> set regionNames \<longleftrightarrow> r \<noteq> spine" for r
    by (cases r) (simp_all add: regionNames_def)
  then show ?thesis unfolding regions_in05_def by blast
qed

lemma headBlock_emotions: "emotionSliders (snd (headBlock e pose s)) = emotionSliders s"
  by (simp add: headBlock_def Let_def split: prod.splits)

lemma neckBlock_emotions: "emotionSliders (snd (neckBlock e pose s)) = emotionSliders s"
  by (simp add: neckBlock_def Let_def split: prod.splits)

lemma armsHandsBlock_emotions: "emotionSliders (snd (armsHandsBlock e pose s)) = emotionSliders s"
  by (simp add: armsHandsBlock_def Let_def split: prod.splits option.splits)

lemma chestBlock_emotions: "emotionSliders (snd (chestBlock e pose s)) = emotionSliders s"
  by (simp add: chestBlock_def Let_def split: prod.splits option.splits)

lemma abdomenBlock_emotions: "emotionSliders (snd (abdomenBlock e pose s)) = emotionSliders s"
  by (simp add: abdomenBlock_def Let_def split: prod.splits option.splits)

lemma legsFeetBlock_emotions: "emotionSliders (snd (legsFeetBlock e pose s)) = emotionSliders s"
  by (simp add: legsFeetBlock_def Let_def split: prod.splits option.splits)

lemma spineBlock_emotions: "emotionSliders (spineBlock e pose s) = emotionSliders s"
  by (simp add: spineBlock_def Let_def split: prod.splits option.splits)

lemma couple_emotions: "emotionSliders (snd (coupleRegionsToPose e pose s)) = emotionSliders s"
  by (simp add: coupleRegionsToPose_def split_beta headBlock_emotions neckBlock_emotions
      armsHandsBlock_emotions chestBlock_emotions abdomenBlock_emotions legsFeetBlock_emotions
      spineBlock_emotions)

lemma updatePoseFactors_regions: "regionSliders (updatePoseFactors e pose s) = regionSliders s"
  by (simp add: updatePoseFactors_def Let_def)

lemma updatePoseFactors_emotions_in05:
  assumes "\<forall>k. in05 (emotionSliders s k)"
  shows "in05 (emotionSliders (updatePoseFactors e pose s) k)"
proof (cases "filter visible (keypoints pose) = []")
  case True
  with assms show ?thesis by (simp add: updatePoseFactors_def)
next
  case False
  have b: "0 \<le> blendPoseVsSlider" "blendPoseVsSlider \<le> 1" by (simp_all add: tune)
  note l = lerp_in05[OF assms[rule_format] _ b]
  show ?thesis using False
    by (cases k) (simp_all add: updatePoseFactors_def Let_def l constrain_in05 clamp01_in05)
qed

lemma applyEmotions_in05:
  assumes "\<forall>k. in05 (E k)" "\<forall>(k, v) \<in> set kvs. emotionOfName k \<noteq> None \<longrightarrow> in05 v"
  shows "in05 (applyEmotions kvs E em)"
  using assms
proof (induction kvs E arbitrary: em rule: applyEmotions.induct)
  case (1 E)
  then show ?case by simp
next
  case (2 k v kvs E)
  have b: "0 \<le> BLEND" "BLEND \<le> 1" by (simp_all add: tune)
  from 2(4) have rest: "\<forall>(k, v) \<in> set kvs. emotionOfName k \<noteq> None \<longrightarrow> in05 v" by simp
  show ?case
  proof (cases "emotionOfName k")
    case None
    with 2(1)[OF None 2(3) rest] show ?thesis by simp
  next
    case (Some x)
    with 2(4) have "in05 v" by simp
    with 2(3) have "in05 (lerp (E x) v BLEND)" using lerp_in05[OF _ _ b, of "E x" v] by simp
    with 2(3) have "\<forall>j. in05 ((E(x := lerp (E x) v BLEND)) j)" by simp
    from 2(2)[OF Some this rest, of em]
    have step: "in05 (applyEmotions kvs (E(x := lerp (E x) v BLEND)) em)" .
    have "applyEmotions ((k, v) # kvs) E = applyEmotions kvs (E(x := lerp (E x) v BLEND))"
      using Some by simp
    with step show ?thesis by (simp only:)
  qed
qed

lemma regionOfName_spine: "regionOfName k = Some spine \<longleftrightarrow> k = ''spine''"
  by (simp add: regionOfName_def)

lemma applyRegions_in05:
  assumes "\<forall>r. r \<noteq> spine \<longrightarrow> in05 (R r)" "values_in_range kvs" "q \<noteq> spine"
  shows "in05 (applyRegions kvs R q)"
  using assms
proof (induction kvs R arbitrary: q rule: applyRegions.induct)
  case (1 R)
  then show ?case by simp
next
  case (2 k v kvs R)
  have b: "0 \<le> BLEND" "BLEND \<le> 1" by (simp_all add: tune)
  from 2(4) have rest: "values_in_range kvs" and kv: "k \<noteq> ''spine'' \<longrightarrow> in05 v"
    by (simp_all add: values_in_range_def)
  show ?case
  proof (cases "regionOfName k")
    case None
    with 2(1)[OF None 2(3) rest 2(5)] show ?thesis by simp
  next
    case (Some x)
    have "\<forall>r. r \<noteq> spine \<longrightarrow> in05 ((R(x := lerp (R x) v BLEND)) r)"
    proof (intro allI impI)
      fix r :: region assume r: "r \<noteq> spine"
      show "in05 ((R(x := lerp (R x) v BLEND)) r)"
      proof (cases "r = x")
        case True
        with r Some have "k \<noteq> ''spine''" using regionOfName_spine[of k] by auto
        with kv have "in05 v" by simp
        with True r 2(3) show ?thesis using lerp_in05[OF _ _ b, of "R x" v] by simp
      next
        case False
        with r 2(3) show ?thesis by simp
      qed
    qed
    from 2(2)[OF Some this rest 2(5)]
    have step: "in05 (applyRegions kvs (R(x := lerp (R x) v BLEND)) q)" .
    have "applyRegions ((k, v) # kvs) R = applyRegions kvs (R(x := lerp (R x) v BLEND))"
      using Some by simp
    with step show ?thesis by (simp only:)
  qed
qed

text \<open>
  Claim C3, as amended. Let every stored emotion value and every stored width of the six
  regions lie in \<open>[0,5]\<close>. Then they still do after a pose-driven blend write
  (\<open>updatePoseFactors\<close>, \<open>coupleRegionsToPose\<close>, a whole detection tick) on a pose
  that is not degenerate, and after an \<open>applySliders\<close> write whose supplied values lie
  in \<open>[0,5]\<close>. \<open>applySliders\<close> itself does not clamp: it stores
  \<open>lerp(current, supplied, 0.35)\<close> for any supplied number.
  The bounds hold in the real-number model for every pose; \<open>nondegenerate\<close> keeps the
  statement to the inputs on which no division by zero occurs, where the program's
  numbers could be \<open>NaN\<close> or infinite, which the model does not represent.
\<close>

theorem sliders_stay_in_range:
  assumes "sliders_in_range s"
  shows "(nondegenerate e pose s \<longrightarrow>
            sliders_in_range (updatePoseFactors e pose s) \<and>
            sliders_in_range (snd (coupleRegionsToPose e pose s)) \<and>
            sliders_in_range (detectionTick e pose s)) \<and>
         (values_in_range emo \<and> values_in_range reg \<longrightarrow>
            sliders_in_range (applySliders now emo reg force s))"
proof -
  from assms have E: "\<forall>k. in05 (emotionSliders s k)" and R: "regions_in05 s"
    by (simp_all add: sliders_in_range_def regions_in05_iff)
  have u: "sliders_in_range (updatePoseFactors e pose s)" for e pose
    using E R updatePoseFactors_emotions_in05[OF E]
    by (simp add: sliders_in_range_def updatePoseFactors_regions regions_in05_iff)
  have c: "sliders_in_range (snd (coupleRegionsToPose e pose s'))" if "sliders_in_range s'" for e pose s'
    using that couple_in05[of s' e pose]
    by (simp add: sliders_in_range_def couple_emotions regions_in05_iff)
  have a: "sliders_in_range (applySliders now emo reg force s)"
    if v: "values_in_range emo" "values_in_range reg"
  proof -
    have ne: "\<forall>(k, v) \<in> set emo. emotionOfName k \<noteq> None \<longrightarrow> in05 v"
      using v(1) by (auto simp: values_in_range_def emotionOfName_def)
    have e': "in05 (applyEmotions emo (emotionSliders s) em)" for em
      using applyEmotions_in05[OF E ne] .
    have r': "in05 (applyRegions reg (regionSliders s) q)" if "q \<noteq> spine" for q
      using applyRegions_in05[OF _ v(2) that, of "regionSliders s"] R
      by (simp add: regions_in05_def)
    show ?thesis using assms e' r'
      by (simp add: applySliders_def sliders_in_range_def regions_in05_iff[symmetric] regions_in05_def)
  qed
  show ?thesis using u c[OF u] c[OF assms] a by (simp add: detectionTick_def)
qed

text \<open>
  The theorem at the initial state, a pose with both shoulders and both wrists visible,
  and an apply of anxiety 5 and head 3.
\<close>

theorem sliders_stay_in_range_witness:
  "sliders_in_range pipeline_init \<and> nondegenerate env0 shoulders_and_wrists pipeline_init \<and>
   values_in_range [(''anxiety'', 5)] \<and> values_in_range [(''head'', 3)] \<and>
   sliders_in_range (detectionTick env0 shoulders_and_wrists pipeline_init) \<and>
   sliders_in_range (applySliders 0 [(''anxiety'', 5)] [(''head'', 3)] False pipeline_init)"
proof -
  have 1: "sliders_in_range pipeline_init"
    by (simp add: sliders_in_range_def pipeline_init_def in05_def)
  have 2: "nondegenerate env0 shoulders_and_wrists pipeline_init"
    by (simp add: nondegenerate_def shoulders_and_wrists_def standing_def pt_def kp_def env0_def
        pipeline_init_def get_def findPart_def visible_def kpMinScore_def)
  have 3: "values_in_range [(''anxiety'', 5)]" "values_in_range [(''head'', 3)]"
    by (simp_all add: values_in_range_def in05_def)
  from sliders_stay_in_range[OF 1, of env0 shoulders_and_wrists "[(''anxiety'', 5)]" "[(''head'', 3)]" 0 False]
  show ?thesis using 1 2 3 by blast
qed

text \<open>An external apply of anxiety 100 to the initial store leaves anxiety at 35.\<close>

theorem external_apply_unclamped_counterexample:
  "sliders_in_range pipeline_init \<and>
   emotionSliders (applySliders 0 [(''anxiety'', 100)] [] False pipeline_init) anxiety = 35"
  by (simp add: sliders_in_range_def pipeline_init_def in05_def applySliders_def
      emotionOfName_def lerp_def BLEND_def)

subsection \<open>Missing keypoints\<close>













lemma couple_state:
  "snd (coupleRegionsToPose e pose s) =
     spineBlock e pose (snd (legsFeetBlock e pose (snd (abdomenBlock e pose (snd (chestBlock e pose
       (snd (armsHandsBlock e pose (snd (neckBlock e pose (snd (headBlock e pose s))))))))))))"
  by (simp add: coupleRegionsToPose_def split_beta)






subsection \<open>The per-part cache\<close>

lemma get_vis: "get P name = map_option snd (find (\<lambda>q. fst q = name) (vis P))"
proof -
  have "map_option position (find (\<lambda>p. part p = name \<and> visible p) ks) =
        map_option snd (find (\<lambda>q. fst q = name) (map (\<lambda>k. (part k, position k)) (filter visible ks)))"
    for ks
    by (induction ks) auto
  then show ?thesis by (simp add: get_def findPart_def vis_def)
qed

lemma same_vis_get: "vis P1 = vis P2 \<Longrightarrow> get P1 = get P2"
  by (rule ext) (simp add: get_vis)

lemma synced_cong: "get P1 = get P2 \<Longrightarrow> synced c P1 N = synced c P2 N"
  by (simp add: synced_def)

lemma synced_mono: "synced c P N \<Longrightarrow> M \<subseteq> N \<Longrightarrow> synced c P M"
  by (auto simp: synced_def)

lemma synced_Un: "synced c P M \<Longrightarrow> synced c P N \<Longrightarrow> synced c P (M \<union> N)"
  by (auto simp: synced_def)

lemma findPart_get: "findPart P name = Some k \<Longrightarrow> get P name = Some (position k)"
  by (simp add: get_def)

lemma rv_loop_cache:
  "rv_loop d P names (sm, n, c) = (sm', n', c') \<Longrightarrow>
   c' = (\<lambda>name. if name \<in> set names
                 then (case get P name of None \<Rightarrow> c name | Some p \<Rightarrow> Some p) else c name)"
proof (induction names arbitrary: sm n c)
  case Nil
  then show ?case by simp
next
  case (Cons a names)
  show ?case
  proof (cases "findPart P a")
    case None
    then have g: "get P a = None" by (simp add: get_def)
    from Cons.prems None have "rv_loop d P names (sm, n, c) = (sm', n', c')" by simp
    from Cons.IH[OF this] g show ?thesis by (auto simp: fun_eq_iff)
  next
    case (Some k)
    then have g: "get P a = Some (position k)" by (rule findPart_get)
    obtain sm1 n1 where "rv_loop d P names (sm1, n1, c(a \<mapsto> position k)) = (sm', n', c')"
      using Cons.prems Some by (cases "c a") (auto simp: Let_def)
    from Cons.IH[OF this] g show ?thesis by (auto simp: fun_eq_iff split: option.splits)
  qed
qed

lemma rv_loop_synced:
  "synced c P (set names) \<Longrightarrow> rv_loop d P names (sm, n, c) = (sm', n', c') \<Longrightarrow> sm' = sm"
proof (induction names arbitrary: sm n c)
  case Nil
  then show ?case by simp
next
  case (Cons a names)
  from Cons.prems(1) have sy: "synced c P (set names)" by (auto simp: synced_def)
  show ?case
  proof (cases "findPart P a")
    case None
    with Cons.prems have "rv_loop d P names (sm, n, c) = (sm', n', c')" by simp
    from Cons.IH[OF sy this] show ?thesis .
  next
    case (Some k)
    then have g: "get P a = Some (position k)" by (rule findPart_get)
    with Cons.prems(1) have ca: "c a = Some (position k)" by (auto simp: synced_def)
    then have same: "c(a \<mapsto> position k) = c" by (auto simp: fun_eq_iff)
    from Cons.prems(2) Some ca have "rv_loop d P names (sm, n + 1, c) = (sm', n', c')"
      by (simp add: Let_def same hypot_0)
    from Cons.IH[OF sy this] show ?thesis .
  qed
qed

lemma regionVelocity_cache:
  "snd (regionVelocity e P parts c) =
     (\<lambda>name. if name \<in> set parts
              then (case get P name of None \<Rightarrow> c name | Some p \<Rightarrow> Some p) else c name)"
proof -
  obtain sm' n' c' where r: "rv_loop (diag e) P parts (0, 0, c) = (sm', n', c')"
    by (cases "rv_loop (diag e) P parts (0, 0, c)") auto
  from rv_loop_cache[OF r] r show ?thesis by (simp add: regionVelocity_def)
qed

lemma regionVelocity_synced_zero:
  assumes "synced c P (set parts)"
  shows "fst (regionVelocity e P parts c) = 0"
proof -
  obtain sm' n' c' where r: "rv_loop (diag e) P parts (0, 0, c) = (sm', n', c')"
    by (cases "rv_loop (diag e) P parts (0, 0, c)") auto
  from rv_loop_synced[OF assms r] r show ?thesis by (simp add: regionVelocity_def)
qed

lemma regionVelocity_syncs: "synced (snd (regionVelocity e P parts c)) P (set parts)"
  by (auto simp: synced_def regionVelocity_cache split: option.splits)

lemma regionVelocity_keeps_synced:
  "synced c P N \<Longrightarrow> synced (snd (regionVelocity e P parts c)) P N"
  by (auto simp: synced_def regionVelocity_cache split: option.splits)

lemma headBlock_rv:
  "fst (headBlock e P s) =
     (if guard P head then Some (fst (regionVelocity e P (regionKeypoints head) (prevByPart s))) else None)"
  "prevByPart (snd (headBlock e P s)) =
     (if guard P head then snd (regionVelocity e P (regionKeypoints head) (prevByPart s)) else prevByPart s)"
  by (simp_all add: headBlock_def Let_def split: prod.splits)

lemma neckBlock_rv:
  "fst (neckBlock e P s) =
     (if guard P neck then Some (fst (regionVelocity e P (regionKeypoints neck) (prevByPart s))) else None)"
  "prevByPart (snd (neckBlock e P s)) =
     (if guard P neck then snd (regionVelocity e P (regionKeypoints neck) (prevByPart s)) else prevByPart s)"
  by (simp_all add: neckBlock_def Let_def split: prod.splits)

lemma armsHandsBlock_rv:
  "fst (armsHandsBlock e P s) =
     (if guard P armsHands then Some (fst (regionVelocity e P (regionKeypoints armsHands) (prevByPart s))) else None)"
  "prevByPart (snd (armsHandsBlock e P s)) =
     (if guard P armsHands then snd (regionVelocity e P (regionKeypoints armsHands) (prevByPart s)) else prevByPart s)"
  by (auto simp: armsHandsBlock_def Let_def split: prod.splits option.splits)

lemma chestBlock_rv:
  "fst (chestBlock e P s) =
     (if guard P chest then Some (fst (regionVelocity e P (regionKeypoints chest) (prevByPart s))) else None)"
  "prevByPart (snd (chestBlock e P s)) =
     (if guard P chest then snd (regionVelocity e P (regionKeypoints chest) (prevByPart s)) else prevByPart s)"
  by (auto simp: chestBlock_def Let_def split: prod.splits option.splits)

lemma abdomenBlock_rv:
  "fst (abdomenBlock e P s) =
     (if guard P abdomen then Some (fst (regionVelocity e P (regionKeypoints abdomen) (prevByPart s))) else None)"
  "prevByPart (snd (abdomenBlock e P s)) =
     (if guard P abdomen then snd (regionVelocity e P (regionKeypoints abdomen) (prevByPart s)) else prevByPart s)"
  by (auto simp: abdomenBlock_def Let_def split: prod.splits option.splits)

lemma legsFeetBlock_rv:
  "fst (legsFeetBlock e P s) =
     (if guard P legsFeet then Some (fst (regionVelocity e P (regionKeypoints legsFeet) (prevByPart s))) else None)"
  "prevByPart (snd (legsFeetBlock e P s)) =
     (if guard P legsFeet then snd (regionVelocity e P (regionKeypoints legsFeet) (prevByPart s)) else prevByPart s)"
  by (auto simp: legsFeetBlock_def Let_def split: prod.splits option.splits)

lemma spineBlock_cache: "prevByPart (spineBlock e P s) = prevByPart s"
  by (simp add: spineBlock_def Let_def split: option.splits)

lemma block_generic:
  assumes "fst (B e P s) =
             (if guard P r then Some (fst (regionVelocity e P (regionKeypoints r) (prevByPart s))) else None)"
    and "prevByPart (snd (B e P s)) =
             (if guard P r then snd (regionVelocity e P (regionKeypoints r) (prevByPart s)) else prevByPart s)"
  shows "synced (prevByPart s) P N \<Longrightarrow> synced (prevByPart (snd (B e P s))) P (N \<union> readKeys P r)"
    and "synced (prevByPart s) P N \<Longrightarrow> readKeys P r \<subseteq> N \<Longrightarrow>
           fst (B e P s) = None \<or> fst (B e P s) = Some 0"
proof -
  show "synced (prevByPart (snd (B e P s))) P (N \<union> readKeys P r)" if "synced (prevByPart s) P N"
  proof (cases "guard P r")
    case True
    with assms(2) that show ?thesis
      by (simp add: readKeys_def synced_Un regionVelocity_keeps_synced regionVelocity_syncs)
  next
    case False
    with assms(2) that show ?thesis by (simp add: readKeys_def)
  qed
  show "fst (B e P s) = None \<or> fst (B e P s) = Some 0"
    if "synced (prevByPart s) P N" "readKeys P r \<subseteq> N"
  proof (cases "guard P r")
    case True
    with that have "synced (prevByPart s) P (set (regionKeypoints r))"
      by (auto simp: readKeys_def intro: synced_mono)
    from regionVelocity_synced_zero[OF this] True assms(1) show ?thesis by simp
  next
    case False
    with assms(1) show ?thesis by simp
  qed
qed

lemmas head_g = block_generic[of headBlock, OF headBlock_rv]

lemmas neck_g = block_generic[of neckBlock, OF neckBlock_rv]

lemmas arms_g = block_generic[of armsHandsBlock, OF armsHandsBlock_rv]

lemmas chest_g = block_generic[of chestBlock, OF chestBlock_rv]

lemmas abdomen_g = block_generic[of abdomenBlock, OF abdomenBlock_rv]

lemmas legs_g = block_generic[of legsFeetBlock, OF legsFeetBlock_rv]

lemma allReadKeys_eq:
  "allReadKeys P = readKeys P head \<union> readKeys P neck \<union> readKeys P armsHands \<union> readKeys P chest
      \<union> readKeys P abdomen \<union> readKeys P legsFeet"
  by (auto simp: allReadKeys_def regionNames_def)

lemma couple_syncs:
  "synced (prevByPart (snd (coupleRegionsToPose e P s))) P (allReadKeys P)"
proof -
  have 0: "synced (prevByPart s) P {}" by (simp add: synced_def)
  note 1 = head_g(1)[OF 0, of e]
  note 2 = neck_g(1)[OF 1, of e]
  note 3 = arms_g(1)[OF 2, of e]
  note 4 = chest_g(1)[OF 3, of e]
  note 5 = abdomen_g(1)[OF 4, of e]
  note 6 = legs_g(1)[OF 5, of e]
  from 6 show ?thesis by (simp add: couple_state spineBlock_cache allReadKeys_eq)
qed

lemma couple_velocities:
  "fst (coupleRegionsToPose e P s) =
     [(head, fst (headBlock e P s)),
      (neck, fst (neckBlock e P (snd (headBlock e P s)))),
      (armsHands, fst (armsHandsBlock e P (snd (neckBlock e P (snd (headBlock e P s)))))),
      (chest, fst (chestBlock e P (snd (armsHandsBlock e P (snd (neckBlock e P (snd (headBlock e P s)))))))),
      (abdomen, fst (abdomenBlock e P (snd (chestBlock e P (snd (armsHandsBlock e P
          (snd (neckBlock e P (snd (headBlock e P s)))))))))),
      (legsFeet, fst (legsFeetBlock e P (snd (abdomenBlock e P (snd (chestBlock e P
          (snd (armsHandsBlock e P (snd (neckBlock e P (snd (headBlock e P s))))))))))))]"
  by (simp add: coupleRegionsToPose_def split_beta)

lemma Un_absorb_sub: "A \<subseteq> N \<Longrightarrow> N \<union> A = N"
  by auto

lemma couple_synced_zero:
  assumes "synced (prevByPart s) P (allReadKeys P)"
  shows "list_all (\<lambda>(r, v). v = None \<or> v = Some 0) (fst (coupleRegionsToPose e P s))"
proof -
  let ?N = "allReadKeys P"
  have sub: "readKeys P r \<subseteq> ?N" if "r \<in> set regionNames" for r
    using that by (auto simp: allReadKeys_def)
  have s: "readKeys P head \<subseteq> ?N" "readKeys P neck \<subseteq> ?N" "readKeys P armsHands \<subseteq> ?N"
    "readKeys P chest \<subseteq> ?N" "readKeys P abdomen \<subseteq> ?N" "readKeys P legsFeet \<subseteq> ?N"
    by (simp_all add: sub regionNames_def)
  note a0 = assms
  have a1: "synced (prevByPart (snd (headBlock e P s))) P ?N"
    using head_g(1)[OF a0, of e] by (simp add: Un_absorb_sub[OF s(1)])
  have a2: "synced (prevByPart (snd (neckBlock e P (snd (headBlock e P s))))) P ?N"
    using neck_g(1)[OF a1, of e] by (simp add: Un_absorb_sub[OF s(2)])
  have a3: "synced (prevByPart (snd (armsHandsBlock e P (snd (neckBlock e P (snd (headBlock e P s))))))) P ?N"
    using arms_g(1)[OF a2, of e] by (simp add: Un_absorb_sub[OF s(3)])
  have a4: "synced (prevByPart (snd (chestBlock e P (snd (armsHandsBlock e P
              (snd (neckBlock e P (snd (headBlock e P s))))))))) P ?N"
    using chest_g(1)[OF a3, of e] by (simp add: Un_absorb_sub[OF s(4)])
  have a5: "synced (prevByPart (snd (abdomenBlock e P (snd (chestBlock e P (snd (armsHandsBlock e P
              (snd (neckBlock e P (snd (headBlock e P s))))))))))) P ?N"
    using abdomen_g(1)[OF a4, of e] by (simp add: Un_absorb_sub[OF s(5)])
  show ?thesis
    unfolding couple_velocities
    using head_g(2)[OF a0 s(1), of e] neck_g(2)[OF a1 s(2), of e] arms_g(2)[OF a2 s(3), of e]
      chest_g(2)[OF a3 s(4), of e] abdomen_g(2)[OF a4 s(5), of e] legs_g(2)[OF a5 s(6), of e]
    by simp
qed

lemma guard_cong: "get P1 = get P2 \<Longrightarrow> guard P1 r = guard P2 r"
  by (cases r) simp_all

lemma allReadKeys_cong: "get P1 = get P2 \<Longrightarrow> allReadKeys P1 = allReadKeys P2"
  using guard_cong[of P1 P2] by (simp add: allReadKeys_def readKeys_def)

lemma block_prevKeypoints:
  "prevKeypoints (snd (headBlock e P s)) = prevKeypoints s"
  "prevKeypoints (snd (neckBlock e P s)) = prevKeypoints s"
  "prevKeypoints (snd (armsHandsBlock e P s)) = prevKeypoints s"
  "prevKeypoints (snd (chestBlock e P s)) = prevKeypoints s"
  "prevKeypoints (snd (abdomenBlock e P s)) = prevKeypoints s"
  "prevKeypoints (snd (legsFeetBlock e P s)) = prevKeypoints s"
  "prevKeypoints (spineBlock e P s) = prevKeypoints s"
  by (simp_all add: headBlock_def neckBlock_def armsHandsBlock_def chestBlock_def
      abdomenBlock_def legsFeetBlock_def spineBlock_def Let_def split: prod.splits option.splits)

lemma couple_prevKeypoints: "prevKeypoints (snd (coupleRegionsToPose e P s)) = prevKeypoints s"
  by (simp add: couple_state block_prevKeypoints)

lemma updatePoseFactors_cache: "prevByPart (updatePoseFactors e P s) = prevByPart s"
  by (simp add: updatePoseFactors_def Let_def)

lemma updatePoseFactors_prevKeypoints:
  "filter visible (keypoints P) \<noteq> [] \<Longrightarrow> prevKeypoints (updatePoseFactors e P s) = Some (vis P)"
  by (simp add: updatePoseFactors_def Let_def vis_def)

lemma vel_loop_same:
  assumes "\<forall>k \<in> set ks. \<forall>p. find (\<lambda>p. fst p = part k) prev = Some p \<longrightarrow> snd p = position k"
  shows "fst (vel_loop d prev ks (sm, n)) = sm"
  using assms
proof (induction ks arbitrary: sm n)
  case Nil
  then show ?case by simp
next
  case (Cons k ks)
  show ?case
  proof (cases "find (\<lambda>p. fst p = part k) prev")
    case None
    with Cons show ?thesis by simp
  next
    case (Some p)
    with Cons.prems have "snd p = position k" by (cases p) auto
    with Some Cons show ?thesis by (simp add: Let_def hypot_0)
  qed
qed

lemma find_distinct_fst:
  "distinct (map fst ps) \<Longrightarrow> (a, b) \<in> set ps \<Longrightarrow> find (\<lambda>p. fst p = a) ps = Some (a, b)"
proof (induction ps)
  case Nil
  then show ?case by simp
next
  case (Cons q ps)
  show ?case
  proof (cases "fst q = a")
    case True
    with Cons.prems have "q = (a, b)" by (cases q) force
    with True show ?thesis by simp
  next
    case False
    with Cons show ?thesis by auto
  qed
qed

lemma velAvg_same:
  assumes "distinct (map fst (vis P))"
  shows "velAvg e (Some (vis P)) (filter visible (keypoints P)) = 0"
proof -
  have "\<forall>k \<in> set (filter visible (keypoints P)).
          \<forall>p. find (\<lambda>p. fst p = part k) (vis P) = Some p \<longrightarrow> snd p = position k"
  proof (intro ballI allI impI)
    fix k p
    assume k: "k \<in> set (filter visible (keypoints P))"
      and f: "find (\<lambda>p. fst p = part k) (vis P) = Some p"
    from k have "(part k, position k) \<in> set (vis P)" by (auto simp: vis_def)
    from find_distinct_fst[OF assms this] f show "snd p = position k" by simp
  qed
  from vel_loop_same[OF this, of "diag e" 0 0] show ?thesis
    by (auto simp: velAvg_def split: prod.splits)
qed

lemma diag_env0: "diag env0 = 800"
proof -
  have "sqrt (640 * 640 + 480 * 480) = sqrt (800\<^sup>2)" by simp
  also have "\<dots> = 800" by (simp only: real_sqrt_abs)
  finally show ?thesis
    by (simp add: diag_def env0_def videoWidth_def videoHeight_def hypot_def)
qed

subsection \<open>Zero displacement\<close>

text \<open>
  Claim C7, as amended. Let two consecutive detection ticks see poses whose keypoints
  passing the confidence filter are the same parts at the same positions, and let the
  part names of these keypoints be distinct (as the detector supplies them). Then on the
  second tick the global raw velocity \<open>velAvg\<close> is 0, and every region velocity that
  \<open>coupleRegionsToPose\<close> computes is 0 (a region whose block is skipped computes none).
\<close>

theorem zero_displacement_zero_velocity:
  assumes "vis P1 = vis P2" and "distinct (map fst (vis P2))"
  shows "velAvg e2 (prevKeypoints (detectionTick e1 P1 s)) (filter visible (keypoints P2)) = 0 \<and>
         list_all (\<lambda>(r, v). v = None \<or> v = Some 0)
           (fst (coupleRegionsToPose e2 P2 (updatePoseFactors e2 P2 (detectionTick e1 P1 s))))"
proof
  show "velAvg e2 (prevKeypoints (detectionTick e1 P1 s)) (filter visible (keypoints P2)) = 0"
  proof (cases "filter visible (keypoints P1) = []")
    case True
    then have "vis P1 = []" by (simp add: vis_def)
    with assms(1) have "filter visible (keypoints P2) = []" by (simp add: vis_def)
    then show ?thesis by (simp add: velAvg_def split: option.splits)
  next
    case False
    then have "prevKeypoints (detectionTick e1 P1 s) = Some (vis P2)"
      by (simp add: detectionTick_def couple_prevKeypoints updatePoseFactors_prevKeypoints assms(1))
    with velAvg_same[OF assms(2), of e2] show ?thesis by simp
  qed
next
  have g: "get P1 = get P2" using assms(1) by (rule same_vis_get)
  have "synced (prevByPart (detectionTick e1 P1 s)) P1 (allReadKeys P1)"
    unfolding detectionTick_def by (rule couple_syncs)
  then have "synced (prevByPart (detectionTick e1 P1 s)) P2 (allReadKeys P2)"
    using synced_cong[OF g] allReadKeys_cong[OF g] by simp
  then have "synced (prevByPart (updatePoseFactors e2 P2 (detectionTick e1 P1 s))) P2 (allReadKeys P2)"
    by (simp add: updatePoseFactors_cache)
  then show "list_all (\<lambda>(r, v). v = None \<or> v = Some 0)
           (fst (coupleRegionsToPose e2 P2 (updatePoseFactors e2 P2 (detectionTick e1 P1 s))))"
    by (rule couple_synced_zero)
qed

lemma vis_shoulders_and_wrists:
  "vis shoulders_and_wrists =
     [(''leftShoulder'', pt 400 100), (''rightShoulder'', pt 200 100),
      (''leftWrist'', pt 450 300), (''rightWrist'', pt 150 300)]"
  by (simp add: vis_def shoulders_and_wrists_def standing_def kp_def visible_def kpMinScore_def)

text \<open>Two ticks on the same pose with both shoulders and both wrists visible.\<close>

theorem zero_displacement_zero_velocity_witness:
  "distinct (map fst (vis shoulders_and_wrists)) \<and>
   velAvg env0 (prevKeypoints (detectionTick env0 shoulders_and_wrists pipeline_init))
     (filter visible (keypoints shoulders_and_wrists)) = 0 \<and>
   list_all (\<lambda>(r, v). v = None \<or> v = Some 0)
     (fst (coupleRegionsToPose env0 shoulders_and_wrists
        (updatePoseFactors env0 shoulders_and_wrists
           (detectionTick env0 shoulders_and_wrists pipeline_init))))"
proof -
  have d: "distinct (map fst (vis shoulders_and_wrists))"
    by (simp add: vis_shoulders_and_wrists)
  from zero_displacement_zero_velocity[OF refl d, of env0 env0 pipeline_init] d
  show ?thesis by simp
qed

text \<open>
  The global estimator looks a part up by name in the previous filtered set and takes the
  first match. With two confident keypoints both named \<open>nose\<close>, at (0,0) and (800,0),
  two identical ticks give the velocity 1/2 on the second, not 0.
\<close>

theorem duplicate_part_counterexample:
  "velAvg env0 (prevKeypoints (detectionTick env0 twice_nose pipeline_init))
     (filter visible (keypoints twice_nose)) = 1 / 2"
proof -
  have f: "filter visible (keypoints twice_nose) = [kp ''nose'' 0 0 0.9, kp ''nose'' 800 0 0.9]"
    by (simp add: twice_nose_def standing_def kp_def visible_def kpMinScore_def)
  have p: "prevKeypoints (detectionTick env0 twice_nose pipeline_init) =
             Some [(''nose'', pt 0 0), (''nose'', pt 800 0)]"
    by (simp add: detectionTick_def couple_prevKeypoints updatePoseFactors_prevKeypoints f
        vis_def kp_def)
  show ?thesis
    unfolding p f
    by (simp add: velAvg_def diag_env0 kp_def pt_def hypot_def)
qed

subsection \<open>Regions that share parts\<close>

lemma displacement_upd:
  "x \<noteq> a \<Longrightarrow> displacement e P (c(a \<mapsto> v)) x = displacement e P c x"
  by (simp add: displacement_def)

lemma rv_loop_displacements:
  "distinct names \<Longrightarrow>
   fst (rv_loop (diag e) P names (sm, n, c)) = sm + sum_list (somes (map (displacement e P c) names)) \<and>
   fst (snd (rv_loop (diag e) P names (sm, n, c))) = n + length (somes (map (displacement e P c) names))"
proof (induction names arbitrary: sm n c)
  case Nil
  then show ?case by simp
next
  case (Cons a names)
  then have d: "distinct names" and a: "a \<notin> set names" by simp_all
  have same: "map (displacement e P (c(a \<mapsto> v))) names = map (displacement e P c) names" for v
  proof (rule map_cong[OF refl])
    fix x assume "x \<in> set names"
    with a have "x \<noteq> a" by auto
    then show "displacement e P (c(a \<mapsto> v)) x = displacement e P c x"
      by (rule displacement_upd)
  qed
  show ?case
  proof (cases "findPart P a")
    case None
    then have "displacement e P c a = None" by (simp add: displacement_def get_def)
    with None Cons.IH[OF d, of sm n c] show ?thesis by simp
  next
    case (Some k)
    then have g: "get P a = Some (position k)" by (rule findPart_get)
    show ?thesis
    proof (cases "c a")
      case None
      with g have dn: "displacement e P c a = None" by (simp add: displacement_def)
      note IH = Cons.IH[OF d, of sm n "c(a \<mapsto> position k)", unfolded same]
      have step: "rv_loop (diag e) P (a # names) (sm, n, c) =
                  rv_loop (diag e) P names (sm, n, c(a \<mapsto> position k))"
        using None \<open>findPart P a = Some k\<close> by simp
      have ds: "somes (map (displacement e P c) (a # names)) = somes (map (displacement e P c) names)"
        using dn by simp
      show ?thesis unfolding step ds by (rule IH)
    next
      case (Some q)
      let ?h = "hypot ((px (position k) - px q) / diag e) ((py (position k) - py q) / diag e)"
      from Some g have dn: "displacement e P c a = Some ?h" by (simp add: displacement_def)
      note IH = Cons.IH[OF d, of "sm + ?h" "n + 1" "c(a \<mapsto> position k)", unfolded same]
      have step: "rv_loop (diag e) P (a # names) (sm, n, c) =
                  rv_loop (diag e) P names (sm + ?h, n + 1, c(a \<mapsto> position k))"
        using Some \<open>findPart P a = Some k\<close> by (simp add: Let_def)
      have ds: "somes (map (displacement e P c) (a # names)) = ?h # somes (map (displacement e P c) names)"
        using dn by simp
      from IH have i1: "fst (rv_loop (diag e) P names (sm + ?h, n + 1, c(a \<mapsto> position k))) =
                          sm + ?h + sum_list (somes (map (displacement e P c) names))"
        and i2: "fst (snd (rv_loop (diag e) P names (sm + ?h, n + 1, c(a \<mapsto> position k)))) =
                   n + 1 + length (somes (map (displacement e P c) names))"
        by blast+
      show ?thesis unfolding step ds i1 i2 by simp
    qed
  qed
qed

lemma regionVelocity_mean:
  assumes "distinct parts"
  shows "fst (regionVelocity e P parts c) = arith_mean (somes (map (displacement e P c) parts))"
proof -
  obtain sm' n' c' where r: "rv_loop (diag e) P parts (0, 0, c) = (sm', n', c')"
    by (cases "rv_loop (diag e) P parts (0, 0, c)") auto
  from rv_loop_displacements[OF assms, of e P 0 0 c] r
  have "sm' = sum_list (somes (map (displacement e P c) parts))"
    and "n' = length (somes (map (displacement e P c) parts))" by simp_all
  with r show ?thesis by (auto simp: regionVelocity_def arith_mean_def)
qed

lemma displacement_synced:
  "c name = get P name \<Longrightarrow> get P name \<noteq> None \<Longrightarrow> displacement e P c name = Some 0"
  by (auto simp: displacement_def hypot_0)

lemma regionVelocity_overwrites:
  "name \<in> set parts \<Longrightarrow> get P name \<noteq> None \<Longrightarrow>
   snd (regionVelocity e P parts c) name = get P name"
  by (auto simp: regionVelocity_cache)

lemma regionVelocity_keeps:
  "c name = get P name \<Longrightarrow> snd (regionVelocity e P parts c) name = get P name"
  by (auto simp: regionVelocity_cache split: option.splits)

lemma chest_after_arms:
  assumes "guard P armsHands"
  shows "fst (chestBlock e P (snd (armsHandsBlock e P (snd (neckBlock e P (snd (headBlock e P s))))))) = Some 0"
proof -
  have 0: "synced (prevByPart s) P {}" by (simp add: synced_def)
  note 1 = head_g(1)[OF 0, of e]
  note 2 = neck_g(1)[OF 1, of e]
  note 3 = arms_g(1)[OF 2, of e]
  from assms have gc: "guard P chest" by simp
  have sub: "readKeys P chest \<subseteq> {} \<union> readKeys P head \<union> readKeys P neck \<union> readKeys P armsHands"
    using assms by (auto simp: readKeys_def)
  from chest_g(2)[OF 3 sub, of e] gc show ?thesis by (simp add: chestBlock_rv(1))
qed

lemma get_one_shoulder:
  "get one_shoulder name = (if name = ''leftShoulder'' then Some (pt 800 0) else None)"
  by (simp add: get_def findPart_def one_shoulder_def standing_def kp_def visible_def kpMinScore_def)

lemma order_example:
  "fst (regionVelocity env0 one_shoulder (regionKeypoints chest) [''leftShoulder'' \<mapsto> pt 0 0]) = 1 \<and>
   fst (regionVelocity env0 one_shoulder (regionKeypoints chest)
      (snd (regionVelocity env0 one_shoulder (regionKeypoints neck) [''leftShoulder'' \<mapsto> pt 0 0]))) = 0"
proof -
  have "synced (snd (regionVelocity env0 one_shoulder (regionKeypoints neck) [''leftShoulder'' \<mapsto> pt 0 0]))
          one_shoulder (set (regionKeypoints chest))"
    by (simp add: synced_def regionVelocity_cache get_one_shoulder)
  from regionVelocity_synced_zero[OF this] show ?thesis
    by (simp add: regionVelocity_mean displacement_def get_one_shoulder diag_env0 pt_def
        hypot_def arith_mean_def)
qed

text \<open>
  Claim C9. A region velocity over distinct part names is the mean of the displacements
  of its counted parts against the per-part cache. Every \<open>regionVelocity\<close> call
  overwrites the cache entry of each part it reads (a part of its list that passes the
  confidence filter) with the current position; so in any later call of the same tick
  that part contributes the displacement 0, also after further calls in between. The
  chest parts are exactly the neck parts and the armsHands parts, so whenever the
  armsHands block runs, the chest velocity of that tick is 0. The order matters: with the
  left shoulder cached at (0,0) and seen at (800,0), the chest velocity is 1 when computed
  first and 0 when computed after the neck.
\<close>

theorem region_velocities_interfere:
  "(distinct parts \<longrightarrow>
      fst (regionVelocity e P parts c) = arith_mean (somes (map (displacement e P c) parts))) \<and>
   (name \<in> set parts \<and> get P name \<noteq> None \<longrightarrow>
      snd (regionVelocity e P parts c) name = get P name \<and>
      displacement e P (snd (regionVelocity e P parts c)) name = Some 0 \<and>
      displacement e P (snd (regionVelocity e P parts' (snd (regionVelocity e P parts c)))) name = Some 0) \<and>
   set (regionKeypoints chest) = set (regionKeypoints neck) \<union> set (regionKeypoints armsHands) \<and>
   (guard P armsHands \<longrightarrow> map_of (fst (coupleRegionsToPose e P s)) chest = Some (Some 0)) \<and>
   fst (regionVelocity env0 one_shoulder (regionKeypoints chest) [''leftShoulder'' \<mapsto> pt 0 0]) = 1 \<and>
   fst (regionVelocity env0 one_shoulder (regionKeypoints chest)
      (snd (regionVelocity env0 one_shoulder (regionKeypoints neck) [''leftShoulder'' \<mapsto> pt 0 0]))) = 0"
proof (intro conjI impI)
  show "fst (regionVelocity e P parts c) = arith_mean (somes (map (displacement e P c) parts))"
    if "distinct parts" using that by (rule regionVelocity_mean)
  assume a: "name \<in> set parts \<and> get P name \<noteq> None"
  then show o: "snd (regionVelocity e P parts c) name = get P name"
    by (simp add: regionVelocity_overwrites)
  from a o show "displacement e P (snd (regionVelocity e P parts c)) name = Some 0"
    by (simp add: displacement_synced)
  from a regionVelocity_keeps[of "snd (regionVelocity e P parts c)" name P e parts', OF o]
  show "displacement e P (snd (regionVelocity e P parts' (snd (regionVelocity e P parts c)))) name = Some 0"
    by (simp add: displacement_synced)
next
  show "set (regionKeypoints chest) = set (regionKeypoints neck) \<union> set (regionKeypoints armsHands)"
    by auto
next
  assume "guard P armsHands"
  from chest_after_arms[OF this, of e s]
  show "map_of (fst (coupleRegionsToPose e P s)) chest = Some (Some 0)"
    by (simp add: couple_velocities)
next
  show "fst (regionVelocity env0 one_shoulder (regionKeypoints chest) [''leftShoulder'' \<mapsto> pt 0 0]) = 1"
    using order_example by simp
  show "fst (regionVelocity env0 one_shoulder (regionKeypoints chest)
      (snd (regionVelocity env0 one_shoulder (regionKeypoints neck) [''leftShoulder'' \<mapsto> pt 0 0]))) = 0"
    using order_example by simp
qed

text \<open>The theorem at a pose with both shoulders and both wrists visible.\<close>

theorem region_velocities_interfere_witness:
  "distinct (regionKeypoints neck) \<and> ''leftShoulder'' \<in> set (regionKeypoints neck) \<and>
   get shoulders_and_wrists ''leftShoulder'' \<noteq> None \<and> guard shoulders_and_wrists armsHands \<and>
   displacement env0 shoulders_and_wrists
     (snd (regionVelocity env0 shoulders_and_wrists (regionKeypoints chest)
        (snd (regionVelocity env0 shoulders_and_wrists (regionKeypoints neck) Map.empty))))
     ''leftShoulder'' = Some 0 \<and>
   map_of (fst (coupleRegionsToPose env0 shoulders_and_wrists pipeline_init)) chest = Some (Some 0)"
proof -
  have g: "get shoulders_and_wrists ''leftShoulder'' \<noteq> None"
    "get shoulders_and_wrists ''rightShoulder'' \<noteq> None"
    "get shoulders_and_wrists ''leftWrist'' \<noteq> None"
    "get shoulders_and_wrists ''rightWrist'' \<noteq> None"
    by (simp_all add: get_vis vis_shoulders_and_wrists)
  then have ga: "guard shoulders_and_wrists armsHands" by simp
  from region_velocities_interfere[of "regionKeypoints neck" env0 shoulders_and_wrists Map.empty
      "''leftShoulder''" "regionKeypoints chest" pipeline_init] g ga
  show ?thesis by simp
qed

subsection \<open>What the confidence filter keeps\<close>

lemma filter_visible: "filter visible ks = filter (\<lambda>k. 0.5 < score k) ks"
  by (rule filter_cong) (simp_all add: visible_def kpMinScore_def)

lemma findPart_explicit:
  "findPart pose name = find (\<lambda>p. part p = name \<and> 0.5 < score p) (keypoints pose)"
  by (simp add: findPart_def visible_def kpMinScore_def)

lemma updatePoseFactors_movementVelocity:
  "filter visible (keypoints pose) \<noteq> [] \<Longrightarrow>
   movementVelocity (updatePoseFactors e pose s) =
     lerp (movementVelocity s)
       (clamp01 (map_p5 (velAvg e (prevKeypoints s) (filter visible (keypoints pose)))
          vNormInMin vNormInMax 0 1)) vBlend"
  by (simp add: updatePoseFactors_def Let_def)

text \<open>
  Claim C8, as amended. A keypoint passes the filter exactly when its score is strictly
  greater than the threshold 0.5, and the estimator works on exactly these keypoints:
  \<open>updatePoseFactors\<close> caches in \<open>__prevKeypoints\<close> the parts and positions of the
  keypoints with score above 0.5 and no others, and blends the movement velocity toward
  the raw velocity of exactly these keypoints; a \<open>regionVelocity\<close> call overwrites the
  per-part cache for the parts of its list that have a keypoint with score above 0.5 and
  for no others. On a frame none of whose keypoints passes, \<open>updatePoseFactors\<close>
  returns at once and changes nothing (it computes no velocity, and the smoothed movement
  velocity keeps its value), every \<open>regionVelocity\<close> call returns 0 and leaves the
  per-part cache as it was, and after the whole tick both caches are untouched.
\<close>

theorem confidence_filter_is_strict:
  "(visible k \<longleftrightarrow> score k > 0.5) \<and>
   filter visible (keypoints pose) = filter (\<lambda>k. 0.5 < score k) (keypoints pose) \<and>
   prevKeypoints (updatePoseFactors e pose s) =
     (if filter (\<lambda>k. 0.5 < score k) (keypoints pose) = [] then prevKeypoints s
      else Some (map (\<lambda>k. (part k, position k)) (filter (\<lambda>k. 0.5 < score k) (keypoints pose)))) \<and>
   movementVelocity (updatePoseFactors e pose s) =
     (if filter (\<lambda>k. 0.5 < score k) (keypoints pose) = [] then movementVelocity s
      else lerp (movementVelocity s)
             (clamp01 (map_p5 (velAvg e (prevKeypoints s)
                (filter (\<lambda>k. 0.5 < score k) (keypoints pose))) vNormInMin vNormInMax 0 1)) vBlend) \<and>
   snd (regionVelocity e pose parts c) =
     (\<lambda>name. if name \<in> set parts
              then (case find (\<lambda>p. part p = name \<and> 0.5 < score p) (keypoints pose) of
                      None \<Rightarrow> c name | Some q \<Rightarrow> Some (position q))
              else c name) \<and>
   (filter visible (keypoints pose) = [] \<longrightarrow>
      updatePoseFactors e pose s = s \<and>
      regionVelocity e pose parts c = (0, c) \<and>
      prevKeypoints (detectionTick e pose s) = prevKeypoints s \<and>
      prevByPart (detectionTick e pose s) = prevByPart s \<and>
      movementVelocity (detectionTick e pose s) = movementVelocity s)"
proof (intro conjI impI)
  show "visible k \<longleftrightarrow> score k > 0.5" by (simp add: visible_def kpMinScore_def)
  show fv: "filter visible (keypoints pose) = filter (\<lambda>k. 0.5 < score k) (keypoints pose)"
    by (rule filter_visible)
  show "prevKeypoints (updatePoseFactors e pose s) =
     (if filter (\<lambda>k. 0.5 < score k) (keypoints pose) = [] then prevKeypoints s
      else Some (map (\<lambda>k. (part k, position k)) (filter (\<lambda>k. 0.5 < score k) (keypoints pose))))"
  proof (cases "filter visible (keypoints pose) = []")
    case True
    then have "updatePoseFactors e pose s = s" by (simp add: updatePoseFactors_def)
    with True fv show ?thesis by simp
  next
    case False
    from updatePoseFactors_prevKeypoints[OF False, of e s] False fv show ?thesis
      by (simp add: vis_def)
  qed
  show "movementVelocity (updatePoseFactors e pose s) =
     (if filter (\<lambda>k. 0.5 < score k) (keypoints pose) = [] then movementVelocity s
      else lerp (movementVelocity s)
             (clamp01 (map_p5 (velAvg e (prevKeypoints s)
                (filter (\<lambda>k. 0.5 < score k) (keypoints pose))) vNormInMin vNormInMax 0 1)) vBlend)"
  proof (cases "filter visible (keypoints pose) = []")
    case True
    then have "updatePoseFactors e pose s = s" by (simp add: updatePoseFactors_def)
    with True fv show ?thesis by simp
  next
    case False
    from updatePoseFactors_movementVelocity[OF False, of e s] False fv show ?thesis by simp
  qed
  show "snd (regionVelocity e pose parts c) =
     (\<lambda>name. if name \<in> set parts
              then (case find (\<lambda>p. part p = name \<and> 0.5 < score p) (keypoints pose) of
                      None \<Rightarrow> c name | Some q \<Rightarrow> Some (position q))
              else c name)"
    unfolding regionVelocity_cache
    by (rule ext) (simp add: get_def findPart_explicit split: option.splits)
next
  assume a: "filter visible (keypoints pose) = []"
  then show u: "updatePoseFactors e pose s = s" by (simp add: updatePoseFactors_def)
  show "regionVelocity e pose parts c = (0, c)" using a by (rule regionVelocity_no_visible)
  show "prevKeypoints (detectionTick e pose s) = prevKeypoints s"
    by (simp add: detectionTick_def u couple_no_visible[OF a])
  show "prevByPart (detectionTick e pose s) = prevByPart s"
    by (simp add: detectionTick_def u couple_no_visible[OF a])
  show "movementVelocity (detectionTick e pose s) = movementVelocity s"
    by (simp add: detectionTick_def u couple_no_visible[OF a])
qed

text \<open>
  The theorem on a frame whose only keypoint has the score 0.5, and on a frame with
  scores 0.9, 0.5 and 0.1, of which only the first keypoint is cached.
\<close>

theorem confidence_filter_is_strict_witness:
  "filter visible (keypoints (standing [kp ''nose'' 10 20 0.5])) = [] \<and>
   updatePoseFactors env0 (standing [kp ''nose'' 10 20 0.5]) pipeline_init = pipeline_init \<and>
   regionVelocity env0 (standing [kp ''nose'' 10 20 0.5]) (regionKeypoints head) Map.empty
     = (0, Map.empty) \<and>
   prevKeypoints (updatePoseFactors env0 mixed_scores pipeline_init) = Some [(''nose'', pt 10 20)] \<and>
   snd (regionVelocity env0 mixed_scores (regionKeypoints head) Map.empty) ''nose'' = Some (pt 10 20) \<and>
   snd (regionVelocity env0 mixed_scores (regionKeypoints head) Map.empty) ''leftEye'' = None"
proof -
  have h: "filter visible (keypoints (standing [kp ''nose'' 10 20 0.5])) = []"
    by (simp add: standing_def kp_def visible_def kpMinScore_def)
  from confidence_filter_is_strict[of "kp ''nose'' 10 20 0.5" "standing [kp ''nose'' 10 20 0.5]"
      env0 pipeline_init "regionKeypoints head" Map.empty] h
  have 1: "updatePoseFactors env0 (standing [kp ''nose'' 10 20 0.5]) pipeline_init = pipeline_init"
    and 2: "regionVelocity env0 (standing [kp ''nose'' 10 20 0.5]) (regionKeypoints head) Map.empty
              = (0, Map.empty)"
    by blast+
  have m: "keypoints mixed_scores =
      [kp ''nose'' 10 20 0.9, kp ''leftEye'' 30 40 0.5, kp ''rightEye'' 50 60 0.1]"
    by (simp add: mixed_scores_def standing_def)
  from confidence_filter_is_strict[of "kp ''nose'' 10 20 0.9" mixed_scores
      env0 pipeline_init "regionKeypoints head" Map.empty]
  have 3: "prevKeypoints (updatePoseFactors env0 mixed_scores pipeline_init) =
     (if filter (\<lambda>k. 0.5 < score k) (keypoints mixed_scores) = [] then prevKeypoints pipeline_init
      else Some (map (\<lambda>k. (part k, position k)) (filter (\<lambda>k. 0.5 < score k) (keypoints mixed_scores))))"
    and 4: "snd (regionVelocity env0 mixed_scores (regionKeypoints head) Map.empty) =
     (\<lambda>name. if name \<in> set (regionKeypoints head)
              then (case find (\<lambda>p. part p = name \<and> 0.5 < score p) (keypoints mixed_scores) of
                      None \<Rightarrow> Map.empty name | Some q \<Rightarrow> Some (position q))
              else Map.empty name)"
    by blast+
  have p3: "prevKeypoints (updatePoseFactors env0 mixed_scores pipeline_init) = Some [(''nose'', pt 10 20)]"
    unfolding 3 m by (simp add: kp_def)
  have p4: "snd (regionVelocity env0 mixed_scores (regionKeypoints head) Map.empty) ''nose'' = Some (pt 10 20)"
    "snd (regionVelocity env0 mixed_scores (regionKeypoints head) Map.empty) ''leftEye'' = None"
    unfolding 4 m by (simp_all add: kp_def)
  from h 1 2 p3 p4 show ?thesis by simp
qed

text \<open>
  A keypoint whose score equals the threshold is not kept: a frame with only this
  keypoint leaves \<open>__prevKeypoints\<close> unset.
\<close>

theorem threshold_score_counterexample:
  "kpMinScore \<le> score (kp ''nose'' 10 20 0.5) \<and>
   filter visible [kp ''nose'' 10 20 0.5] = [] \<and>
   prevKeypoints (updatePoseFactors env0 (standing [kp ''nose'' 10 20 0.5]) pipeline_init) = None"
  by (simp add: kp_def visible_def kpMinScore_def updatePoseFactors_def standing_def
      pipeline_init_def)

end
